theory Spec2Isabelle
  imports Main
begin

text \<open>
  The Heylock agent (\<open>src/index.js\<close>) as functions on an explicit state. A method of
  the class is a function that takes the agent and returns its result, an error or a
  value, together with the agent after the call. What the environment supplies during a
  call is a parameter of the function: a reading of the clock, and what \<open>fetch\<close>
  resolves to; the requests passed to \<open>fetch\<close> and the callbacks that were called are
  recorded in the state. A method runs from its call to its end without another call in
  between. The definitions come first; the properties follow from
  section \<open>Auxiliary facts\<close> on.
\<close>

section \<open>JavaScript values\<close>

text \<open>
  Numbers of the program are counters, indexes and millisecond timestamps. The finite
  ones are modelled as integers; \<open>NaN\<close> and the two infinities are kept, because the
  code tests for them (\<open>isNaN\<close>, \<open>Number.isFinite\<close>).
\<close>

datatype jsnum = NaN | NegInf | PosInf | Fin int

fun isNaN :: "jsnum \<Rightarrow> bool" where
  "isNaN NaN = True"
| "isNaN _ = False"

fun isFinite :: "jsnum \<Rightarrow> bool" where
  "isFinite (Fin _) = True"
| "isFinite _ = False"

text \<open>\<open>x < 0\<close> and \<open>x <= 0\<close> on numbers: every comparison with \<open>NaN\<close> is false.\<close>

fun lt_zero :: "jsnum \<Rightarrow> bool" where
  "lt_zero (Fin n) = (n < 0)"
| "lt_zero NegInf = True"
| "lt_zero _ = False"

fun le_zero :: "jsnum \<Rightarrow> bool" where
  "le_zero (Fin n) = (n \<le> 0)"
| "le_zero NegInf = True"
| "le_zero _ = False"

text \<open>
  Values that cross the boundary of the class untyped: parsed JSON bodies, and the
  arrays handed to \<open>setMessageHistory\<close> and \<open>setContext\<close>. An object is the list of
  its own properties; the first binding of a name is the property's value.
\<close>

datatype jsval =
    JUndefined
  | JNull
  | JBool bool
  | JNum jsnum
  | JStr string
  | JArr "jsval list"
  | JObj "(string \<times> jsval) list"

text \<open>\<open>typeof v === 'object'\<close>: objects, arrays and \<open>null\<close>.\<close>

fun typeof_object :: "jsval \<Rightarrow> bool" where
  "typeof_object JNull = True"
| "typeof_object (JArr _) = True"
| "typeof_object (JObj _) = True"
| "typeof_object _ = False"

text \<open>
  \<open>v.k\<close> for the property names the program reads (\<open>content\<close>, \<open>role\<close>,
  \<open>timestamp\<close>, \<open>valid\<close>, \<open>message\<close>, \<open>text\<close>, \<open>indexes\<close>, \<open>reasoning\<close>,
  \<open>fallback\<close>, \<open>shouldEngage\<close>, \<open>limits\<close>, \<open>remaining\<close>, ...): none of them is a
  built-in property of a string, number, boolean or array, so the read gives
  \<open>undefined\<close> there. On \<open>null\<close> and \<open>undefined\<close> JavaScript throws a TypeError; the
  callers test \<open>nullish\<close> first wherever the source can reach such a read.
\<close>

fun js_get :: "jsval \<Rightarrow> string \<Rightarrow> jsval" where
  "js_get (JObj fs) k = (case map_of fs k of Some v \<Rightarrow> v | None \<Rightarrow> JUndefined)"
| "js_get _ k = JUndefined"

fun nullish :: "jsval \<Rightarrow> bool" where
  "nullish JUndefined = True"
| "nullish JNull = True"
| "nullish _ = False"

subsection \<open>Strings\<close>

text \<open>
  Strings are lists of code units (here 8-bit characters); \<open>length\<close> is \<open>.length\<close>.
  \<open>trim\<close> removes leading and trailing white space: tab, line feed, vertical tab,
  form feed, carriage return, space and no-break space.
\<close>

definition is_space :: "char \<Rightarrow> bool" where
  "is_space c = (of_char c \<in> {9, 10, 11, 12, 13, 32, 160 :: nat})"

definition trim :: "string \<Rightarrow> string" where
  "trim s = rev (dropWhile is_space (rev (dropWhile is_space s)))"

text \<open>Decimal rendering of a non-negative integer, as a template literal does.\<close>

fun show_nat :: "nat \<Rightarrow> string" where
  "show_nat n =
     (if n < 10 then [char_of (48 + n)]
      else show_nat (n div 10) @ [char_of (48 + n mod 10)])"

declare show_nat.simps [simp del]

text \<open>\<open>String(n)\<close> for the numbers of the model.\<close>

definition show_num :: "jsnum \<Rightarrow> string" where
  "show_num n =
     (case n of
        NaN \<Rightarrow> ''NaN''
      | PosInf \<Rightarrow> ''Infinity''
      | NegInf \<Rightarrow> ''-Infinity''
      | Fin i \<Rightarrow> (if i < 0 then CHR ''-'' # show_nat (nat (- i)) else show_nat (nat i)))"

text \<open>\<open>Array.prototype.join\<close> with its default separator, on the texts of the elements.\<close>

fun join_comma :: "string list \<Rightarrow> string" where
  "join_comma [] = []"
| "join_comma [x] = x"
| "join_comma (x # y # ys) = x @ '','' @ join_comma (y # ys)"

text \<open>
  The text of an array element inside \<open>join\<close>: empty for \<open>undefined\<close> and \<open>null\<close>,
  \<open>String(v)\<close> otherwise. The objects are those of a parsed JSON text; an object with a
  property of its own named \<open>toString\<close> (where JavaScript throws a TypeError, the property
  not being callable) is read like any other object.
\<close>

fun join_item :: "jsval \<Rightarrow> string" where
  "join_item JUndefined = []"
| "join_item JNull = []"
| "join_item (JBool b) = (if b then ''true'' else ''false'')"
| "join_item (JNum n) = show_num n"
| "join_item (JStr s) = s"
| "join_item (JArr xs) = join_comma (map join_item xs)"
| "join_item (JObj fs) = ''[object Object]''"

section \<open>Constants\<close>

definition MAX_MESSAGE_LENGTH :: nat where
  "MAX_MESSAGE_LENGTH = 10000"

definition MAX_CONTEXT_ENTRY_LENGTH :: nat where
  "MAX_CONTEXT_ENTRY_LENGTH = 2000"

definition SHOULD_ENGAGE_THROTTLING_MS :: int where
  "SHOULD_ENGAGE_THROTTLING_MS = 15000"

section \<open>Errors\<close>

text \<open>
  Every \<open>throw new Error(`<operation> failed: <text>`)\<close> of the source is
  \<open>Failed operation reason\<close>, one reason per message text:
  \<^item> \<open>NotInitialized\<close>: "agent is not initialized";
  \<^item> \<open>InvalidContent\<close>: "content must be a non-empty string" (for \<open>addMessage\<close>:
    "content must be a string");
  \<^item> \<open>ContentTooLong\<close>, \<open>InstructionsTooLong\<close>: "exceeds maximum allowed length";
  \<^item> \<open>InvalidIndex\<close>: "index must be a number greater than or equal to 0";
  \<^item> \<open>IndexOutOfBounds i\<close>: "index i is out of bounds";
  \<^item> \<open>InvalidInstructions\<close>: "instructions must be a non-empty string if provided";
  \<^item> \<open>InvalidTimestamp\<close>: "timestamp must be a finite, non-negative number if provided";
  \<^item> \<open>NotAnArray\<close>: "must be an array";
  \<^item> \<open>InvalidElement i\<close>: "message at index i is invalid" / "entry at index i is invalid";
  \<^item> \<open>ServerIssues\<close> (500), \<open>BadArguments\<close> (400), \<open>AuthorizationFailed\<close> (401),
    \<open>PlanLimitReached\<close> and \<open>TooManyRequests\<close> (429), \<open>ExternalServiceError\<close> (502),
    \<open>ServerBusy\<close> (503), \<open>SomethingWentWrong\<close> and \<open>UnexpectedStatus code\<close> (any other
    status);
  \<^item> \<open>UnexpectedResponse\<close>: "received an unexpected response from the server";
  \<^item> \<open>IndexesLengthMismatch\<close>: "response indexes length does not match input array length";
  \<^item> \<open>InvalidAgentKey\<close>: "agentKey must be a non-empty string" and "the provided
    agentKey is invalid";
  \<^item> \<open>InvalidStorageKey\<close>: "key must be a non-empty string";
  \<^item> \<open>UndefinedValue\<close>: "value must not be undefined".

  \<open>Unexpected operation e\<close> is the error a \<open>catch\<close> block builds around a foreign error
  \<open>e\<close> ("<operation> failed: an unexpected error occurred. ... Error details: e"), and
  \<open>GreetFailed e\<close> is \<open>greet\<close>'s "greet failed - e". \<open>ReferenceError x\<close> is the
  engine's error for reading the undeclared identifier \<open>x\<close>, \<open>TypeError\<close> the one for
  reading a property of \<open>null\<close> or \<open>undefined\<close>, \<open>Rejected\<close> a rejected promise of
  the transport (\<open>fetch\<close> or \<open>json()\<close>).
\<close>

datatype reason =
    NotInitialized
  | InvalidContent
  | ContentTooLong
  | InvalidIndex
  | IndexOutOfBounds int
  | InvalidInstructions
  | InstructionsTooLong
  | InvalidTimestamp
  | NotAnArray
  | InvalidElement nat
  | ServerIssues
  | BadArguments
  | AuthorizationFailed
  | PlanLimitReached
  | TooManyRequests
  | ExternalServiceError
  | ServerBusy
  | SomethingWentWrong
  | UnexpectedStatus int
  | UnexpectedResponse
  | IndexesLengthMismatch
  | InvalidAgentKey
  | InvalidStorageKey
  | UndefinedValue

datatype error =
    Failed string reason
  | Unexpected string error
  | GreetFailed error
  | ReferenceError string
  | TypeError
  | Rejected

text \<open>
  \<open>error.message.includes("<operation> failed: ")\<close>. The fixed texts of the source
  contain no second prefix, and an \<open>Unexpected\<close> message quotes the error it wraps.
\<close>

fun message_includes :: "string \<Rightarrow> error \<Rightarrow> bool" where
  "message_includes p (Failed q r) = (q = p)"
| "message_includes p (Unexpected q e) = (q = p \<or> message_includes p e)"
| "message_includes p (GreetFailed e) = message_includes p e"
| "message_includes p _ = False"

text \<open>
  The \<open>catch\<close> block every request method ends with: an error that carries the
  method's own prefix is thrown again with the same message, any other is wrapped.
\<close>

definition rethrow :: "string \<Rightarrow> error \<Rightarrow> error" where
  "rethrow p e = (if message_includes p e then e else Unexpected p e)"

section \<open>Data model\<close>

datatype role = User | Assistant

datatype message = Message (content: string) (role: role)

text \<open>
  A stored context entry. Every write path checks that the timestamp is a finite,
  non-negative number or replaces a missing one by the current time, so it is an integer.
\<close>

datatype contextEntry = ContextEntry (entry_content: string) (timestamp: int)

text \<open>
  \<open>#usageRemaining\<close>. The declared \<open>UsageRemaining\<close> has a number or \<open>null\<close> in
  each counter; the class stores what the limits route sent, whatever its type, so a
  counter is a value.
\<close>

record usage =
  messages :: jsval
  sorts :: jsval
  "rewrites" :: jsval

text \<open>
  A string held by \<open>localStorage\<close>: either the JSON text of a value (what
  \<open>JSON.stringify\<close> wrote and \<open>JSON.parse\<close> gives back), or a text that
  \<open>JSON.parse\<close> rejects.
\<close>

datatype stored = Serialized jsval | NotJson string

text \<open>
  Subscribers of the context-change notification: the closure the constructor installs
  when \<open>useStorage\<close> is on, and callbacks of the caller. A caller's callback is opaque:
  the model records that it was called and with which snapshot, and takes it not to
  call back into the agent.
\<close>

datatype contextSubscriber = StorageSync | ContextCallback nat

text \<open>
  The requests handed to \<open>fetch\<close>, by endpoint, with the fields of the JSON body. A
  field the source writes as \<open>flag && value\<close> is \<open>None\<close> when the flag is false.
\<close>

datatype request =
    VerifyKeyRequest string
  | LimitsRequest
  | MessageRequest string "message list option" bool "string option"
  | ShouldEngageRequest "string option" string
  | RewriteRequest string "string option" "string option"
  | SortRequest "jsval list" "string option" "string option"

text \<open>
  What \<open>fetch\<close> resolves to: the status, the \<open>x-ratelimit-remaining\<close> header
  (\<open>None\<close> is \<open>null\<close>: header absent), the value \<open>json()\<close> resolves to (\<open>None\<close>: it
  rejects), and for a streamed body the decoded text of each \<open>read()\<close>, after which
  the reader reports \<open>done\<close>.
\<close>

record response =
  status :: int
  ratelimit :: "string option"
  json_body :: "jsval option"
  stream_reads :: "string list"

datatype fetch_result = NetworkError | Response response

text \<open>
  The agent: the fields of the class, the host it runs on (\<open>isNode\<close>, \<open>isBrowser\<close>,
  \<open>localStorage\<close>, which is \<open>None\<close> where touching it throws), and what the outside
  observes (requests sent, callbacks called). Console output is not part of the state.
\<close>

record agent =
  agentKey :: string
  useStorage :: bool
  useMessageHistory :: bool
  suppressWarnings :: bool
  isInitialized :: bool
  usageRemaining :: usage
  messageHistory :: "message list"
  "context" :: "contextEntry list"
  onInitializedCallbacks :: "nat list"
  onMessageHistoryChangeCallbacks :: "nat list"
  onContextChangeCallbacks :: "contextSubscriber list"
  shouldEngageTimeCalled :: int
  isNode :: bool
  isBrowser :: bool
  localStorage :: "(string \<rightharpoonup> stored) option"
  requests :: "request list"
  initializedCalls :: "(nat \<times> bool) list"
  messageHistoryCalls :: "(nat \<times> message list) list"
  contextCalls :: "(nat \<times> contextEntry list) list"

definition fetch :: "request \<Rightarrow> agent \<Rightarrow> agent" where
  "fetch rq st = st\<lparr>requests := requests st @ [rq]\<rparr>"

section \<open>Storage management\<close>

definition entry_to_js :: "contextEntry \<Rightarrow> jsval" where
  "entry_to_js e =
     JObj [(''content'', JStr (entry_content e)), (''timestamp'', JNum (Fin (timestamp e)))]"

text \<open>
  \<open>#setStorageItem(key, value)\<close>. Outside a browser it returns without writing. A
  throwing \<open>localStorage\<close> is caught and nothing is written (a quota overflow of the
  store is not modelled).
\<close>

definition setStorageItem :: "string \<Rightarrow> jsval \<Rightarrow> agent \<Rightarrow> (error + unit) \<times> agent" where
  "setStorageItem key v st =
     (if key = [] then (Inl (Failed ''#setStorageItem'' InvalidStorageKey), st)
      else if v = JUndefined then (Inl (Failed ''#setStorageItem'' UndefinedValue), st)
      else if isNode st \<and> \<not> isBrowser st then (Inr (), st)
      else (case localStorage st of
              None \<Rightarrow> (Inr (), st)
            | Some m \<Rightarrow> (Inr (), st\<lparr>localStorage := Some (m(key \<mapsto> Serialized v))\<rparr>)))"

text \<open>\<open>#getStorageItem(key)\<close>; \<open>None\<close> is \<open>undefined\<close> or \<open>null\<close>.\<close>

definition getStorageItem :: "string \<Rightarrow> agent \<Rightarrow> error + stored option" where
  "getStorageItem key st =
     (if trim key = [] then Inl (Failed ''getStorageItem'' InvalidStorageKey)
      else if isNode st \<and> \<not> isBrowser st then Inr None
      else (case localStorage st of
              None \<Rightarrow> Inr None
            | Some m \<Rightarrow> Inr (m key)))"

section \<open>Callbacks\<close>

text \<open>
  \<open>#onInitializedExecute\<close>: every registered callback is called with
  \<open>this.isInitialized\<close>; what a callback throws is caught.
\<close>

definition onInitializedExecute :: "agent \<Rightarrow> agent" where
  "onInitializedExecute st =
     st\<lparr>initializedCalls :=
          initializedCalls st @ map (\<lambda>cb. (cb, isInitialized st)) (onInitializedCallbacks st)\<rparr>"

definition onInitialized :: "nat \<Rightarrow> agent \<Rightarrow> agent" where
  "onInitialized cb st = st\<lparr>onInitializedCallbacks := onInitializedCallbacks st @ [cb]\<rparr>"

definition onMessageHistoryChangeExecute :: "agent \<Rightarrow> agent" where
  "onMessageHistoryChangeExecute st =
     st\<lparr>messageHistoryCalls :=
          messageHistoryCalls st
            @ map (\<lambda>cb. (cb, messageHistory st)) (onMessageHistoryChangeCallbacks st)\<rparr>"

definition onMessageHistoryChange :: "nat \<Rightarrow> agent \<Rightarrow> agent" where
  "onMessageHistoryChange cb st =
     st\<lparr>onMessageHistoryChangeCallbacks := onMessageHistoryChangeCallbacks st @ [cb]\<rparr>"

text \<open>
  \<open>#onContextChangeExecute\<close>: the subscribers run in registration order; the storage
  subscriber is \<open>() => this.#setStorageItem('context', this.context)\<close>, and what it
  throws is caught like any callback's error.
\<close>

fun notifyContext :: "contextSubscriber list \<Rightarrow> agent \<Rightarrow> agent" where
  "notifyContext [] st = st"
| "notifyContext (StorageSync # cs) st =
     notifyContext cs (snd (setStorageItem ''context'' (JArr (map entry_to_js (context st))) st))"
| "notifyContext (ContextCallback cb # cs) st =
     notifyContext cs (st\<lparr>contextCalls := contextCalls st @ [(cb, context st)]\<rparr>)"

definition onContextChangeExecute :: "agent \<Rightarrow> agent" where
  "onContextChangeExecute st = notifyContext (onContextChangeCallbacks st) st"

definition onContextChange :: "contextSubscriber \<Rightarrow> agent \<Rightarrow> agent" where
  "onContextChange cb st = st\<lparr>onContextChangeCallbacks := onContextChangeCallbacks st @ [cb]\<rparr>"

section \<open>Message history management\<close>

text \<open>
  The typed parameters follow the package's type declarations (\<open>content: string\<close>,
  \<open>role: 'user' | 'assistant'\<close>, \<open>index: number\<close>); a \<open>typeof\<close> guard that the
  type already decides has no branch here.
\<close>

definition addMessage :: "string \<Rightarrow> role \<Rightarrow> agent \<Rightarrow> (error + nat) \<times> agent" where
  "addMessage c r st =
     (if length c > MAX_MESSAGE_LENGTH then (Inl (Failed ''addMessageToHistory'' ContentTooLong), st)
      else (Inr (length (messageHistory st)),
            onMessageHistoryChangeExecute
              (st\<lparr>messageHistory := messageHistory st @ [Message (trim c) r]\<rparr>)))"

definition removeMessage :: "int \<Rightarrow> agent \<Rightarrow> (error + unit) \<times> agent" where
  "removeMessage i st =
     (if i < 0 then (Inl (Failed ''removeMessage'' InvalidIndex), st)
      else if i > int (length (messageHistory st)) - 1
        then (Inl (Failed ''removeMessage'' (IndexOutOfBounds i)), st)
      else (Inr (),
            onMessageHistoryChangeExecute
              (st\<lparr>messageHistory :=
                    take (nat i) (messageHistory st) @ drop (Suc (nat i)) (messageHistory st)\<rparr>)))"

text \<open>
  \<open>modifyMessage(index, content, role)\<close>. \<open>messageStream\<close> passes \<open>false\<close> for the
  index when it saved no placeholder; that is the index \<open>None\<close>, which is not a number.
\<close>

definition modifyMessage :: "int option \<Rightarrow> string \<Rightarrow> role option \<Rightarrow> agent \<Rightarrow> (error + unit) \<times> agent" where
  "modifyMessage idx c r st =
     (case idx of
        None \<Rightarrow> (Inl (Failed ''modifyMessage'' InvalidIndex), st)
      | Some i \<Rightarrow>
          if i < 0 then (Inl (Failed ''modifyMessage'' InvalidIndex), st)
          else if i > int (length (messageHistory st)) - 1
            then (Inl (Failed ''modifyMessage'' (IndexOutOfBounds i)), st)
          else if trim c = [] then (Inl (Failed ''modifyMessage'' InvalidContent), st)
          else if length c > MAX_MESSAGE_LENGTH
            then (Inl (Failed ''modifyMessage'' ContentTooLong), st)
          else (Inr (),
                onMessageHistoryChangeExecute
                  (st\<lparr>messageHistory :=
                        (messageHistory st)[nat i :=
                           Message (trim c)
                             (case r of None \<Rightarrow> role (messageHistory st ! nat i)
                                      | Some r' \<Rightarrow> r')]\<rparr>)))"

text \<open>The test \<open>setMessageHistory\<close> applies to each element, negated.\<close>

definition valid_message :: "jsval \<Rightarrow> bool" where
  "valid_message m =
     (typeof_object m \<and> m \<noteq> JNull
      \<and> (case js_get m ''content'' of
            JStr c \<Rightarrow> length c \<le> MAX_MESSAGE_LENGTH
          | _ \<Rightarrow> False)
      \<and> (js_get m ''role'' = JStr ''user'' \<or> js_get m ''role'' = JStr ''assistant''))"

text \<open>The validation loop: the index of the first element that fails the test.\<close>

fun first_invalid :: "('a \<Rightarrow> bool) \<Rightarrow> 'a list \<Rightarrow> nat \<Rightarrow> nat option" where
  "first_invalid ok [] i = None"
| "first_invalid ok (x # xs) i = (if ok x then first_invalid ok xs (Suc i) else Some i)"

definition copy_message :: "jsval \<Rightarrow> message" where
  "copy_message m =
     Message (case js_get m ''content'' of JStr c \<Rightarrow> trim c | _ \<Rightarrow> [])
             (if js_get m ''role'' = JStr ''assistant'' then Assistant else User)"

definition setMessageHistory :: "jsval \<Rightarrow> agent \<Rightarrow> (error + unit) \<times> agent" where
  "setMessageHistory arg st =
     (case arg of
        JArr ms \<Rightarrow>
          (case first_invalid valid_message ms 0 of
             Some i \<Rightarrow> (Inl (Failed ''setMessageHistory'' (InvalidElement i)), st)
           | None \<Rightarrow>
               (Inr (),
                onMessageHistoryChangeExecute (st\<lparr>messageHistory := map copy_message ms\<rparr>)))
      | _ \<Rightarrow> (Inl (Failed ''setMessageHistory'' NotAnArray), st))"

definition clearMessageHistory :: "agent \<Rightarrow> agent" where
  "clearMessageHistory st = onMessageHistoryChangeExecute (st\<lparr>messageHistory := []\<rparr>)"

section \<open>Context management\<close>

text \<open>
  The source throws on \<open>timestamp !== undefined && (typeof timestamp !== 'number' ||
  timestamp < 0 || !Number.isFinite(timestamp))\<close>; this is the negation of that test,
  for a parameter of type \<open>number | undefined\<close>.
\<close>

definition valid_timestamp :: "jsnum option \<Rightarrow> bool" where
  "valid_timestamp ts = (case ts of None \<Rightarrow> True | Some t \<Rightarrow> \<not> lt_zero t \<and> isFinite t)"

text \<open>\<open>timestamp ?? now\<close> for a timestamp that passed the check.\<close>

definition timestamp_or :: "int \<Rightarrow> jsnum option \<Rightarrow> int" where
  "timestamp_or now ts = (case ts of Some (Fin t) \<Rightarrow> t | _ \<Rightarrow> now)"

text \<open>
  The first parameter of the functions below is the clock: what \<open>Date.now()\<close> and
  \<open>new Date().getTime()\<close> return during the call.
\<close>

definition addContextEntry :: "int \<Rightarrow> string \<Rightarrow> jsnum option \<Rightarrow> agent \<Rightarrow> (error + nat) \<times> agent" where
  "addContextEntry now c ts st =
     (if trim c = [] then (Inl (Failed ''addContextEntry'' InvalidContent), st)
      else if length c > MAX_CONTEXT_ENTRY_LENGTH
        then (Inl (Failed ''addContextEntry'' ContentTooLong), st)
      else if \<not> valid_timestamp ts then (Inl (Failed ''addContextEntry'' InvalidTimestamp), st)
      else (Inr (length (context st)),
            onContextChangeExecute
              (st\<lparr>context := context st @ [ContextEntry (trim c) (timestamp_or now ts)]\<rparr>)))"

definition removeContextEntry :: "int \<Rightarrow> agent \<Rightarrow> (error + unit) \<times> agent" where
  "removeContextEntry i st =
     (if i < 0 then (Inl (Failed ''removeContextEntry'' InvalidIndex), st)
      else if i > int (length (context st)) - 1
        then (Inl (Failed ''removeContextEntry'' (IndexOutOfBounds i)), st)
      else (Inr (),
            onContextChangeExecute
              (st\<lparr>context := take (nat i) (context st) @ drop (Suc (nat i)) (context st)\<rparr>)))"

definition modifyContextEntry :: "int \<Rightarrow> string \<Rightarrow> jsnum option \<Rightarrow> agent \<Rightarrow> (error + unit) \<times> agent" where
  "modifyContextEntry i c ts st =
     (if i < 0 then (Inl (Failed ''modifyContextEntry'' InvalidIndex), st)
      else if i > int (length (context st)) - 1
        then (Inl (Failed ''modifyContextEntry'' (IndexOutOfBounds i)), st)
      else if trim c = [] then (Inl (Failed ''modifyContextEntry'' InvalidContent), st)
      else if length c > MAX_CONTEXT_ENTRY_LENGTH
        then (Inl (Failed ''modifyContextEntry'' ContentTooLong), st)
      else if \<not> valid_timestamp ts
        then (Inl (Failed ''modifyContextEntry'' InvalidTimestamp), st)
      else (Inr (),
            onContextChangeExecute
              (st\<lparr>context :=
                    (context st)[nat i :=
                       ContextEntry (trim c)
                         (timestamp_or (timestamp (context st ! nat i)) ts)]\<rparr>)))"

text \<open>
  The test \<open>setContext\<close> applies to each entry, negated: an object with a string
  \<open>content\<close> that is not blank and not too long, and a \<open>timestamp\<close> that is
  \<open>undefined\<close> or a finite, non-negative number.
\<close>

definition valid_timestamp_field :: "jsval \<Rightarrow> bool" where
  "valid_timestamp_field t =
     (case t of JUndefined \<Rightarrow> True | JNum n \<Rightarrow> \<not> lt_zero n \<and> isFinite n | _ \<Rightarrow> False)"

definition valid_entry :: "jsval \<Rightarrow> bool" where
  "valid_entry e =
     (typeof_object e \<and> e \<noteq> JNull
      \<and> (case js_get e ''content'' of
            JStr c \<Rightarrow> trim c \<noteq> [] \<and> length c \<le> MAX_CONTEXT_ENTRY_LENGTH
          | _ \<Rightarrow> False)
      \<and> valid_timestamp_field (js_get e ''timestamp''))"

text \<open>
  The guard of the future-timestamp warning: \<open>entry.timestamp !== undefined && typeof
  entry.timestamp === 'number' && Number.isFinite(entry.timestamp)\<close>.
\<close>

definition has_timestamp :: "jsval \<Rightarrow> bool" where
  "has_timestamp e =
     (js_get e ''timestamp'' \<noteq> JUndefined
      \<and> (case js_get e ''timestamp'' of JNum n \<Rightarrow> isFinite n | _ \<Rightarrow> False))"

text \<open>
  The validation loop of \<open>setContext\<close>. Inside the guard the source compares
  \<open>timestamp > now\<close>; the method has no variable \<open>timestamp\<close> (the entry's field is
  \<open>entry.timestamp\<close>), the module declares none and the global object of the engine
  has none, so evaluating the comparison throws a ReferenceError.
\<close>

fun setContext_check :: "jsval list \<Rightarrow> nat \<Rightarrow> error option" where
  "setContext_check [] i = None"
| "setContext_check (e # es) i =
     (if \<not> valid_entry e then Some (Failed ''setContext'' (InvalidElement i))
      else if has_timestamp e then Some (ReferenceError ''timestamp'')
      else setContext_check es (Suc i))"

text \<open>\<open>{content: entry.content.trim(), timestamp: entry.timestamp ?? new Date().getTime()}\<close>\<close>

definition copy_entry :: "int \<Rightarrow> jsval \<Rightarrow> contextEntry" where
  "copy_entry now e =
     ContextEntry (case js_get e ''content'' of JStr c \<Rightarrow> trim c | _ \<Rightarrow> [])
                  (case js_get e ''timestamp'' of JNum (Fin t) \<Rightarrow> t | _ \<Rightarrow> now)"

definition setContext :: "int \<Rightarrow> jsval \<Rightarrow> agent \<Rightarrow> (error + unit) \<times> agent" where
  "setContext now arg st =
     (case arg of
        JArr es \<Rightarrow>
          (case setContext_check es 0 of
             Some err \<Rightarrow> (Inl err, st)
           | None \<Rightarrow>
               (Inr (), onContextChangeExecute (st\<lparr>context := map (copy_entry now) es\<rparr>)))
      | _ \<Rightarrow> (Inl (Failed ''setContext'' NotAnArray), st))"

definition clearContext :: "agent \<Rightarrow> agent" where
  "clearContext st = onContextChangeExecute (st\<lparr>context := []\<rparr>)"

text \<open>\<open>formatTimestampAgo\<close>, the local function of \<open>getContextString\<close>.\<close>

definition plural :: "int \<Rightarrow> string" where
  "plural n = (if n \<noteq> 1 then ''s'' else [])"

definition formatTimestampAgo :: "int \<Rightarrow> int \<Rightarrow> string" where
  "formatTimestampAgo now ts =
     (if ts < 0 then []
      else let differenceMs = now - ts in
        if differenceMs < 0 then ''in the future''
        else let seconds = differenceMs div 1000 in
          if seconds < 1 then ''now''
          else if seconds < 60
            then show_nat (nat seconds) @ '' second'' @ plural seconds @ '' ago''
          else let minutes = seconds div 60 in
            if minutes < 60
              then show_nat (nat minutes) @ '' minute'' @ plural minutes @ '' ago''
            else let hours = minutes div 60 in
              if hours < 24
                then show_nat (nat hours) @ '' hour'' @ plural hours @ '' ago''
              else let days = hours div 24 in
                show_nat (nat days) @ '' day'' @ plural days @ '' ago'')"

definition getContextString :: "int \<Rightarrow> agent \<Rightarrow> string" where
  "getContextString now st =
     concat (map (\<lambda>e. entry_content e @ '' '' @ formatTimestampAgo now (timestamp e) @ ''. '')
                 (context st))"

section \<open>Initialization\<close>

text \<open>
  The options object. \<open>agentId\<close> is the option the README documents for the storage
  namespace; the constructor never reads it.
\<close>

datatype options =
  Options (opt_useStorage: "bool option") (opt_useMessageHistory: "bool option")
          (opt_suppressWarnings: "bool option") (agentId: "string option")

datatype host = Host (host_isNode: bool) (host_isBrowser: bool)
                     (host_localStorage: "(string \<rightharpoonup> stored) option")

definition or_default :: "bool option \<Rightarrow> bool \<Rightarrow> bool" where
  "or_default v d = (case v of None \<Rightarrow> d | Some b \<Rightarrow> b)"

text \<open>The field initialisers of the class and the first three assignments of the constructor.\<close>

definition new_agent :: "host \<Rightarrow> string \<Rightarrow> options \<Rightarrow> agent" where
  "new_agent h key opts =
     \<lparr>agentKey = key,
      useStorage = or_default (opt_useStorage opts) True,
      useMessageHistory = or_default (opt_useMessageHistory opts) True,
      suppressWarnings = or_default (opt_suppressWarnings opts) False,
      isInitialized = False,
      usageRemaining = \<lparr>messages = JNull, sorts = JNull, rewrites = JNull\<rparr>,
      messageHistory = [],
      context = [],
      onInitializedCallbacks = [],
      onMessageHistoryChangeCallbacks = [],
      onContextChangeCallbacks = [],
      shouldEngageTimeCalled = 0,
      isNode = host_isNode h,
      isBrowser = host_isBrowser h,
      localStorage = host_localStorage h,
      requests = [],
      initializedCalls = [],
      messageHistoryCalls = [],
      contextCalls = []\<rparr>"

text \<open>
  \<open>if (contextStorageString) { try { JSON.parse ... } catch ... }\<close>: an empty string
  is falsy, a text that does not parse and a value that is not an array of valid entries
  restore nothing, and a valid array is copied into \<open>#context\<close> (no notification).
\<close>

definition restore_context :: "int \<Rightarrow> stored option \<Rightarrow> agent \<Rightarrow> agent" where
  "restore_context now item st =
     (case item of
        Some (Serialized (JArr es)) \<Rightarrow>
          if list_all valid_entry es then st\<lparr>context := map (copy_entry now) es\<rparr> else st
      | _ \<Rightarrow> st)"

text \<open>
  The constructor up to its last statement, the call of \<open>#initializeAgent\<close>, which is
  \<open>initializeAgent\<close> below: it runs to completion only after the constructor has
  returned and the caller has registered its callbacks.
\<close>

definition constructor :: "host \<Rightarrow> int \<Rightarrow> string \<Rightarrow> options \<Rightarrow> error + agent" where
  "constructor h now key opts =
     (if key = [] then Inl (Failed ''Agent initialization'' InvalidAgentKey)
      else let st = new_agent h key opts in
        if useStorage st then
          (let st1 = onContextChange StorageSync st in
           case getStorageItem ''context'' st1 of
             Inl e \<Rightarrow> Inl e
           | Inr item \<Rightarrow> Inr (restore_context now item st1))
        else Inr st)"

text \<open>The \<open>catch\<close> block of a request method, applied to the outcome of its \<open>try\<close> block.\<close>

definition catch_rethrow :: "string \<Rightarrow> (error + 'a) \<times> agent \<Rightarrow> (error + 'a) \<times> agent" where
  "catch_rethrow p res = (case res of (Inl e, st) \<Rightarrow> (Inl (rethrow p e), st) | _ \<Rightarrow> res)"

subsection \<open>Limit route\<close>

text \<open>
  \<open>data.limits.<name>.remaining\<close>, as received (\<open>undefined\<close> when the property is
  missing); \<open>None\<close> when a step of the path reads a property of \<open>null\<close> or
  \<open>undefined\<close>.
\<close>

definition remaining_of :: "jsval \<Rightarrow> string \<Rightarrow> jsval option" where
  "remaining_of d name =
     (if nullish d \<or> nullish (js_get d ''limits'')
         \<or> nullish (js_get (js_get d ''limits'') name) then None
      else Some (js_get (js_get (js_get d ''limits'') name) ''remaining''))"

definition limits_of :: "jsval \<Rightarrow> usage option" where
  "limits_of d =
     (case (remaining_of d ''messages'', remaining_of d ''sorts'', remaining_of d ''rewrites'') of
        (Some m, Some s, Some r) \<Rightarrow> Some \<lparr>messages = m, sorts = s, rewrites = r\<rparr>
      | _ \<Rightarrow> None)"

definition fetchUsageRemaining_try :: "fetch_result \<Rightarrow> agent \<Rightarrow> (error + usage) \<times> agent" where
  "fetchUsageRemaining_try res st =
     (case res of
        NetworkError \<Rightarrow> (Inl Rejected, st)
      | Response r \<Rightarrow>
          if status r = 401 then (Inl (Failed ''fetchUsageRemaining'' AuthorizationFailed), st)
          else if status r = 500 then (Inl (Failed ''fetchUsageRemaining'' ServerIssues), st)
          else if status r = 503 then (Inl (Failed ''fetchUsageRemaining'' ServerBusy), st)
          else if status r \<noteq> 200
            then (Inl (Failed ''fetchUsageRemaining'' SomethingWentWrong), st)
          else (case json_body r of
                  None \<Rightarrow> (Inl Rejected, st)
                | Some d \<Rightarrow>
                    (case limits_of d of
                       None \<Rightarrow> (Inl TypeError, st)
                     | Some u \<Rightarrow> (Inr u, st\<lparr>usageRemaining := u\<rparr>))))"

definition fetchUsageRemaining :: "fetch_result \<Rightarrow> agent \<Rightarrow> (error + usage) \<times> agent" where
  "fetchUsageRemaining res st =
     (if \<not> isInitialized st then (Inl (Failed ''fetchLimits'' NotInitialized), st)
      else catch_rethrow ''fetchUsageRemaining''
             (fetchUsageRemaining_try res (fetch LimitsRequest st)))"

subsection \<open>The handshake\<close>

text \<open>
  \<open>#initializeAgent\<close>, given what the verification request and the limits request
  resolve to. \<open>#onInitializedExecute\<close> is the last statement of the branch in which
  the key was found valid and the limits were fetched; every \<open>throw\<close> leaves the
  \<open>try\<close> block before it.
\<close>

definition initializeAgent_try :: "fetch_result \<Rightarrow> fetch_result \<Rightarrow> agent \<Rightarrow> (error + unit) \<times> agent" where
  "initializeAgent_try verifyKeyRes limitsRes st =
     (case verifyKeyRes of
        NetworkError \<Rightarrow> (Inl Rejected, st)
      | Response r \<Rightarrow>
          if status r = 500 then (Inl (Failed ''Agent initialization'' ServerIssues), st)
          else if status r \<noteq> 200
            then (Inl (Failed ''Agent initialization'' SomethingWentWrong), st)
          else (case json_body r of
                  None \<Rightarrow> (Inl Rejected, st)
                | Some verifyKeyData \<Rightarrow>
                    if nullish verifyKeyData then (Inl TypeError, st)
                    else (case js_get verifyKeyData ''valid'' of
                            JBool valid \<Rightarrow>
                              if \<not> valid
                                then (Inl (Failed ''Agent initialization'' InvalidAgentKey), st)
                              else (case fetchUsageRemaining limitsRes (st\<lparr>isInitialized := True\<rparr>) of
                                      (Inl e, st') \<Rightarrow> (Inl e, st')
                                    | (Inr u, st') \<Rightarrow> (Inr (), onInitializedExecute st'))
                          | _ \<Rightarrow> (Inl (Failed ''Agent initialization'' UnexpectedResponse), st))))"

definition initializeAgent :: "fetch_result \<Rightarrow> fetch_result \<Rightarrow> agent \<Rightarrow> (error + unit) \<times> agent" where
  "initializeAgent verifyKeyRes limitsRes st =
     catch_rethrow ''Agent initialization''
       (initializeAgent_try verifyKeyRes limitsRes (fetch (VerifyKeyRequest (agentKey st)) st))"

section \<open>Usage tracking\<close>

text \<open>
  \<open>Number(rateLimitRemainingHeader)\<close>. The conversion of a header text to a number is
  the engine's; it is the parameter \<open>N\<close> of the metered methods. \<open>Number(null)\<close> is 0.
\<close>

definition Number_header :: "(string \<Rightarrow> jsnum) \<Rightarrow> string option \<Rightarrow> jsnum" where
  "Number_header N h = (case h of None \<Rightarrow> Fin 0 | Some s \<Rightarrow> N s)"

text \<open>
  The conversion of a value to a number that \<open>counter--\<close> applies to the counter:
  \<open>undefined\<close> is \<open>NaN\<close>, \<open>null\<close> is 0, a boolean is 0 or 1, a string is converted
  by the engine (\<open>N\<close>), an array or an object first becomes a string.
\<close>

definition ToNumber :: "(string \<Rightarrow> jsnum) \<Rightarrow> jsval \<Rightarrow> jsnum" where
  "ToNumber N v =
     (case v of
        JUndefined \<Rightarrow> NaN
      | JNull \<Rightarrow> Fin 0
      | JBool b \<Rightarrow> Fin (if b then 1 else 0)
      | JNum n \<Rightarrow> n
      | JStr s \<Rightarrow> N s
      | JArr xs \<Rightarrow> N (join_comma (map join_item xs))
      | JObj fs \<Rightarrow> N ''[object Object]'')"

text \<open>\<open>n - 1\<close>: \<open>NaN\<close> and the infinities stay.\<close>

fun minus_one :: "jsnum \<Rightarrow> jsnum" where
  "minus_one (Fin n) = Fin (n - 1)"
| "minus_one x = x"

text \<open>\<open>counter--\<close>: the counter becomes the number one below its numeric value.\<close>

definition decrement :: "(string \<Rightarrow> jsnum) \<Rightarrow> jsval \<Rightarrow> jsval" where
  "decrement N v = JNum (minus_one (ToNumber N v))"

text \<open>
  The test of \<open>message\<close>, \<open>messageStream\<close> and \<open>rewrite\<close>:
  \<open>!isNaN(rateLimitRemaining) && rateLimitRemainingHeader !== null\<close>.
\<close>

definition has_signal :: "jsnum \<Rightarrow> string option \<Rightarrow> bool" where
  "has_signal n h = (\<not> isNaN n \<and> h \<noteq> None)"

text \<open>
  The test of \<open>sort\<close>: \<open>!isNaN(rateLimitRemaining && rateLimitRemainingHeader !== null)\<close>.
  The closing parenthesis of \<open>isNaN\<close> comes after the comparison, so the argument is
  the conjunction: the number itself when it is falsy (0 or \<open>NaN\<close>), otherwise the
  boolean \<open>rateLimitRemainingHeader !== null\<close>, and \<open>isNaN\<close> of a boolean is false.
\<close>

definition falsy_num :: "jsnum \<Rightarrow> bool" where
  "falsy_num n = (n = NaN \<or> n = Fin 0)"

definition has_signal_sort :: "jsnum \<Rightarrow> string option \<Rightarrow> bool" where
  "has_signal_sort n h = (\<not> (if falsy_num n then isNaN n else False))"

definition set_messages ::
  "(string \<Rightarrow> jsnum) \<Rightarrow> jsnum \<Rightarrow> string option \<Rightarrow> agent \<Rightarrow> agent" where
  "set_messages N n h st =
     st\<lparr>usageRemaining := (usageRemaining st)
          \<lparr>messages := (if has_signal n h then JNum n
                         else decrement N (messages (usageRemaining st)))\<rparr>\<rparr>"

definition set_rewrites ::
  "(string \<Rightarrow> jsnum) \<Rightarrow> jsnum \<Rightarrow> string option \<Rightarrow> agent \<Rightarrow> agent" where
  "set_rewrites N n h st =
     st\<lparr>usageRemaining := (usageRemaining st)
          \<lparr>rewrites := (if has_signal n h then JNum n
                         else decrement N (rewrites (usageRemaining st)))\<rparr>\<rparr>"

definition set_sorts ::
  "(string \<Rightarrow> jsnum) \<Rightarrow> jsnum \<Rightarrow> string option \<Rightarrow> agent \<Rightarrow> agent" where
  "set_sorts N n h st =
     st\<lparr>usageRemaining := (usageRemaining st)
          \<lparr>sorts := (if has_signal_sort n h then JNum n
                      else decrement N (sorts (usageRemaining st)))\<rparr>\<rparr>"

section \<open>Message route\<close>

definition when_flag :: "bool \<Rightarrow> 'a \<Rightarrow> 'a option" where
  "when_flag b v = (if b then Some v else None)"

text \<open>\<open>flag && this.addMessage(content, role)\<close>\<close>

definition save_message :: "bool \<Rightarrow> string \<Rightarrow> role \<Rightarrow> agent \<Rightarrow> (error + nat option) \<times> agent" where
  "save_message flag c r st =
     (if flag then (case addMessage c r st of
                      (Inl e, st') \<Rightarrow> (Inl e, st')
                    | (Inr i, st') \<Rightarrow> (Inr (Some i), st'))
      else (Inr None, st))"

definition message_try ::
  "(string \<Rightarrow> jsnum) \<Rightarrow> int \<Rightarrow> fetch_result \<Rightarrow> string \<Rightarrow> bool \<Rightarrow> bool \<Rightarrow> agent
     \<Rightarrow> (error + string) \<times> agent" where
  "message_try N now res c useContext saveToMessageHistory st0 =
     (let st = fetch (MessageRequest c (when_flag (useMessageHistory st0) (messageHistory st0))
                        False (when_flag useContext (getContextString now st0))) st0
      in case res of
        NetworkError \<Rightarrow> (Inl Rejected, st)
      | Response r \<Rightarrow>
          let rateLimitRemaining = Number_header N (ratelimit r);
              st1 = set_messages N rateLimitRemaining (ratelimit r) st
          in
            if status r = 500 then (Inl (Failed ''message'' ServerIssues), st1)
            else if status r = 400 then (Inl (Failed ''message'' BadArguments), st1)
            else if status r = 401 then (Inl (Failed ''message'' AuthorizationFailed), st1)
            else if status r = 429 then
              (if \<not> isNaN rateLimitRemaining \<and> le_zero rateLimitRemaining
               then (Inl (Failed ''message'' PlanLimitReached), st1)
               else (Inl (Failed ''message'' TooManyRequests), st1))
            else if status r = 502 then (Inl (Failed ''message'' ExternalServiceError), st1)
            else if status r \<noteq> 200 then (Inl (Failed ''message'' SomethingWentWrong), st1)
            else (case json_body r of
                    None \<Rightarrow> (Inl Rejected, st1)
                  | Some messageData \<Rightarrow>
                      (case js_get messageData ''message'' of
                         JStr output \<Rightarrow>
                           (case save_message saveToMessageHistory output Assistant st1 of
                              (Inl e, st2) \<Rightarrow> (Inl e, st2)
                            | (Inr _, st2) \<Rightarrow> (Inr output, st2))
                       | _ \<Rightarrow> (Inl (Failed ''message'' UnexpectedResponse), st1))))"

definition message ::
  "(string \<Rightarrow> jsnum) \<Rightarrow> int \<Rightarrow> fetch_result \<Rightarrow> string \<Rightarrow> bool \<Rightarrow> bool \<Rightarrow> agent
     \<Rightarrow> (error + string) \<times> agent" where
  "message N now res c useContext saveToMessageHistory st =
     (if \<not> isInitialized st then (Inl (Failed ''message'' NotInitialized), st)
      else if trim c = [] then (Inl (Failed ''message'' InvalidContent), st)
      else if length c > MAX_MESSAGE_LENGTH then (Inl (Failed ''message'' ContentTooLong), st)
      else (case save_message saveToMessageHistory c User st of
              (Inl e, st1) \<Rightarrow> (Inl e, st1)
            | (Inr _, st1) \<Rightarrow>
                catch_rethrow ''message''
                  (message_try N now res c useContext saveToMessageHistory st1)))"

subsection \<open>Streaming\<close>

text \<open>
  A record of the stream as the loop reads it: \<open>chunk.message\<close> (a string by the wire
  contract, \<open>None\<close> when the field is absent) and the truthiness of \<open>chunk.done\<close>.
  \<open>JSON.parse\<close> is the engine's and is the parameter \<open>P\<close>: it gives \<open>None\<close> for a
  line whose parse, or whose property read, throws; the empty \<open>catch\<close> of the loop body
  swallows both.
\<close>

datatype chunk = Chunk (chunk_message: "string option") (chunk_done: bool)

text \<open>\<open>chunk.message\<close> as a string; an absent field and the empty string are both falsy.\<close>

definition fragment :: "chunk \<Rightarrow> string" where
  "fragment ch = (case chunk_message ch of None \<Rightarrow> [] | Some m \<Rightarrow> m)"

text \<open>Control flow of a loop body that may \<open>return\<close> from the generator.\<close>

datatype 'a flow = Continue 'a | Return 'a

definition flow_value :: "'a flow \<Rightarrow> 'a" where
  "flow_value f = (case f of Continue s \<Rightarrow> s | Return s \<Rightarrow> s)"

text \<open>
  The state of the loops: \<open>fullMessage\<close>, the fragments yielded so far, the agent.
  The body of the inner \<open>try\<close>: \<open>modifyMessage\<close> runs before \<open>yield\<close>, so when it
  throws, the empty \<open>catch\<close> takes over and the fragment is not yielded, although
  \<open>fullMessage\<close> has already grown.
\<close>

definition process_chunk ::
  "bool \<Rightarrow> nat option \<Rightarrow> chunk \<Rightarrow> string \<times> string list \<times> agent
     \<Rightarrow> (string \<times> string list \<times> agent) flow" where
  "process_chunk saveToMessageHistory assistantMessageIndex ch s =
     (case s of (fullMessage, yielded, st) \<Rightarrow>
        if fragment ch \<noteq> [] \<and> \<not> chunk_done ch then
          (let fullMessage' = fullMessage @ fragment ch in
           if saveToMessageHistory then
             (case modifyMessage (map_option int assistantMessageIndex) fullMessage'
                     (Some Assistant) st of
                (Inl e, st') \<Rightarrow> Continue (fullMessage', yielded, st')
              | (Inr _, st') \<Rightarrow> Continue (fullMessage', yielded @ [fragment ch], st'))
           else Continue (fullMessage', yielded @ [fragment ch], st))
        else if chunk_done ch then Return s
        else Continue s)"

text \<open>\<open>for (const line of lines)\<close>\<close>

fun for_lines ::
  "(string \<Rightarrow> chunk option) \<Rightarrow> bool \<Rightarrow> nat option \<Rightarrow> string list
     \<Rightarrow> string \<times> string list \<times> agent \<Rightarrow> (string \<times> string list \<times> agent) flow" where
  "for_lines P save idx [] s = Continue s"
| "for_lines P save idx (line # lines) s =
     (if trim line = [] then for_lines P save idx lines s
      else (case P (trim line) of
              None \<Rightarrow> for_lines P save idx lines s
            | Some ch \<Rightarrow>
                (case process_chunk save idx ch s of
                   Return s' \<Rightarrow> Return s'
                 | Continue s' \<Rightarrow> for_lines P save idx lines s')))"

text \<open>\<open>buffer.split('\n')\<close>: always at least one piece.\<close>

fun split_nl :: "string \<Rightarrow> string list" where
  "split_nl [] = [[]]"
| "split_nl (c # cs) =
     (if c = CHR 0x0A then [] # split_nl cs
      else (case split_nl cs of
              [] \<Rightarrow> [[c]]
            | l # ls \<Rightarrow> (c # l) # ls))"

text \<open>
  \<open>while (true)\<close> over the reads: the list is what the reader delivers before it
  reports \<open>done\<close>, where the loop breaks and the generator ends without a value.
  \<open>lines.pop()\<close> is the last piece and stays in the buffer.
\<close>

fun read_loop ::
  "(string \<Rightarrow> chunk option) \<Rightarrow> bool \<Rightarrow> nat option \<Rightarrow> string list \<Rightarrow> string
     \<Rightarrow> string \<times> string list \<times> agent \<Rightarrow> (string \<times> string list \<times> agent) flow" where
  "read_loop P save idx [] buffer s = Continue s"
| "read_loop P save idx (v # reads) buffer s =
     (let lines = split_nl (buffer @ v) in
      case for_lines P save idx (butlast lines) s of
        Return s' \<Rightarrow> Return s'
      | Continue s' \<Rightarrow> read_loop P save idx reads (last lines) s')"

text \<open>
  \<open>this.messageHistory.filter((message, index) => index !== assistantMessageIndex)\<close>;
  with \<open>assistantMessageIndex === false\<close> no index is equal to it.
\<close>

definition historyForStream :: "nat option \<Rightarrow> message list \<Rightarrow> message list" where
  "historyForStream idx ms = map snd (filter (\<lambda>(i, m). Some i \<noteq> idx) (enumerate 0 ms))"

text \<open>
  The outcome of a stream consumed to its end: the fragments yielded, in order, and the
  generator's return value (\<open>None\<close>: it ended without one).
\<close>

definition messageStream_try ::
  "(string \<Rightarrow> jsnum) \<Rightarrow> (string \<Rightarrow> chunk option) \<Rightarrow> int \<Rightarrow> fetch_result \<Rightarrow> string \<Rightarrow> bool
     \<Rightarrow> bool \<Rightarrow> nat option \<Rightarrow> agent \<Rightarrow> (error + string list \<times> string option) \<times> agent" where
  "messageStream_try N P now res c useContext saveToMessageHistory assistantMessageIndex st0 =
     (let st = fetch (MessageRequest c
                        (when_flag (useMessageHistory st0)
                           (historyForStream assistantMessageIndex (messageHistory st0)))
                        True (when_flag useContext (getContextString now st0))) st0
      in case res of
        NetworkError \<Rightarrow> (Inl Rejected, st)
      | Response r \<Rightarrow>
          let rateLimitRemaining = Number_header N (ratelimit r);
              st1 = set_messages N rateLimitRemaining (ratelimit r) st
          in
            if status r = 500 then (Inl (Failed ''messageStream'' ServerIssues), st1)
            else if status r = 400 then (Inl (Failed ''messageStream'' BadArguments), st1)
            else if status r = 401 then (Inl (Failed ''messageStream'' AuthorizationFailed), st1)
            else if status r = 429 then
              (if \<not> isNaN rateLimitRemaining \<and> le_zero rateLimitRemaining
               then (Inl (Failed ''messageStream'' PlanLimitReached), st1)
               else (Inl (Failed ''messageStream'' TooManyRequests), st1))
            else if status r = 502 then (Inl (Failed ''messageStream'' ExternalServiceError), st1)
            else if status r \<noteq> 200 then (Inl (Failed ''messageStream'' SomethingWentWrong), st1)
            else (case read_loop P saveToMessageHistory assistantMessageIndex (stream_reads r) []
                         ([], [], st1) of
                    Return (fullMessage, yielded, st2) \<Rightarrow> (Inr (yielded, Some fullMessage), st2)
                  | Continue (fullMessage, yielded, st2) \<Rightarrow> (Inr (yielded, None), st2)))"

text \<open>
  The \<open>catch\<close> block of \<open>messageStream\<close> first overwrites the placeholder; when that
  call throws (there is no placeholder), its error is the one that leaves the method.
\<close>

definition messageStream_catch ::
  "nat option \<Rightarrow> (error + 'a) \<times> agent \<Rightarrow> (error + 'a) \<times> agent" where
  "messageStream_catch assistantMessageIndex res =
     (case res of
        (Inl e, st) \<Rightarrow>
          (case modifyMessage (map_option int assistantMessageIndex)
                  ''An error occurred while processing your request. Please try again later.''
                  None st of
             (Inl e', st') \<Rightarrow> (Inl e', st')
           | (Inr _, st') \<Rightarrow> (Inl (rethrow ''messageStream'' e), st'))
      | _ \<Rightarrow> res)"

definition messageStream ::
  "(string \<Rightarrow> jsnum) \<Rightarrow> (string \<Rightarrow> chunk option) \<Rightarrow> int \<Rightarrow> fetch_result \<Rightarrow> string \<Rightarrow> bool
     \<Rightarrow> bool \<Rightarrow> agent \<Rightarrow> (error + string list \<times> string option) \<times> agent" where
  "messageStream N P now res c useContext saveToMessageHistory st =
     (if \<not> isInitialized st then (Inl (Failed ''messageStream'' NotInitialized), st)
      else if trim c = [] then (Inl (Failed ''messageStream'' InvalidContent), st)
      else if length c > MAX_MESSAGE_LENGTH
        then (Inl (Failed ''messageStream'' ContentTooLong), st)
      else (case save_message saveToMessageHistory c User st of
              (Inl e, st1) \<Rightarrow> (Inl e, st1)
            | (Inr _, st1) \<Rightarrow>
                (case save_message saveToMessageHistory [] Assistant st1 of
                   (Inl e, st2) \<Rightarrow> (Inl e, st2)
                 | (Inr assistantMessageIndex, st2) \<Rightarrow>
                     messageStream_catch assistantMessageIndex
                       (messageStream_try N P now res c useContext saveToMessageHistory
                          assistantMessageIndex st2))))"

subsection \<open>Greeting\<close>

definition effectiveInstructions :: "string option \<Rightarrow> bool \<Rightarrow> agent \<Rightarrow> string" where
  "effectiveInstructions instructions useContext st =
     (if instructions \<noteq> None \<and> instructions \<noteq> Some []
        then ''Write a greeting message encouraging the visitor to interact with you. Use instructions: ''
             @ (case instructions of Some i \<Rightarrow> i | None \<Rightarrow> [])
      else ''Greet the visitor in one short, friendly sentence. Encourage interaction. Sound human.''
           @ (if useContext then '' Mention their interests or passions subtly.'' else []))
     @ (if useMessageHistory st \<and> length (messageHistory st) > 0
          then '' Take into account our previous conversation history to make the greeting more personalized and contextual''
        else [])"

text \<open>
  \<open>greet(instructions, useContext, saveToMessageHistory)\<close>. After the validation the
  source does not read \<open>saveToMessageHistory\<close> again: the reply of \<open>message\<close> goes
  to \<open>addMessage\<close> in every call.
\<close>

definition greet ::
  "(string \<Rightarrow> jsnum) \<Rightarrow> int \<Rightarrow> fetch_result \<Rightarrow> string option \<Rightarrow> bool \<Rightarrow> bool \<Rightarrow> agent
     \<Rightarrow> (error + string) \<times> agent" where
  "greet N now res instructions useContext saveToMessageHistory st =
     (if (case instructions of None \<Rightarrow> False | Some i \<Rightarrow> trim i = [])
        then (Inl (Failed ''greet'' InvalidInstructions), st)
      else if (case instructions of None \<Rightarrow> False | Some i \<Rightarrow> i \<noteq> [] \<and> length i > MAX_MESSAGE_LENGTH)
        then (Inl (Failed ''greet'' InstructionsTooLong), st)
      else (case message N now res (effectiveInstructions instructions useContext st) True False st of
              (Inl e, st1) \<Rightarrow> (Inl (GreetFailed e), st1)
            | (Inr output, st1) \<Rightarrow>
                (case addMessage output Assistant st1 of
                   (Inl e, st2) \<Rightarrow> (Inl (GreetFailed e), st2)
                 | (Inr _, st2) \<Rightarrow> (Inr output, st2))))"

section \<open>Should-Engage route\<close>

text \<open>
  Where the source validates a response body with \<open>if (<body is malformed>) throw\<close>,
  the methods below test the negation, the well-formed body, and raise in the
  \<open>else\<close> branch.
\<close>

definition throttled :: jsval where
  "throttled =
     JObj [(''shouldEngage'', JBool False),
           (''reasoning'', JStr []),
           (''warning'', JStr ''Throttling in effect (15000 ms). Please wait before calling again''),
           (''fallback'', JBool True)]"

definition is_bool :: "jsval \<Rightarrow> bool" where
  "is_bool v = (case v of JBool _ \<Rightarrow> True | _ \<Rightarrow> False)"

definition is_string :: "jsval \<Rightarrow> bool" where
  "is_string v = (case v of JStr _ \<Rightarrow> True | _ \<Rightarrow> False)"

definition shouldEngage_try ::
  "int \<Rightarrow> fetch_result \<Rightarrow> string option \<Rightarrow> agent \<Rightarrow> (error + jsval) \<times> agent" where
  "shouldEngage_try now res instructions st0 =
     (let st = fetch (ShouldEngageRequest instructions (getContextString now st0)) st0
      in case res of
        NetworkError \<Rightarrow> (Inl Rejected, st)
      | Response r \<Rightarrow>
          if status r = 400 then (Inl (Failed ''shouldEngage'' BadArguments), st)
          else if status r = 401 then (Inl (Failed ''shouldEngage'' AuthorizationFailed), st)
          else if status r = 500 then (Inl (Failed ''shouldEngage'' ServerIssues), st)
          else if status r = 502 then (Inl (Failed ''shouldEngage'' ExternalServiceError), st)
          else if status r \<noteq> 200
            then (Inl (Failed ''shouldEngage'' (UnexpectedStatus (status r))), st)
          else (case json_body r of
                  None \<Rightarrow> (Inl Rejected, st)
                | Some shouldEngageData \<Rightarrow>
                    if typeof_object shouldEngageData \<and> shouldEngageData \<noteq> JNull
                       \<and> is_bool (js_get shouldEngageData ''shouldEngage'')
                       \<and> is_string (js_get shouldEngageData ''reasoning'')
                       \<and> is_bool (js_get shouldEngageData ''fallback'')
                      then (Inr shouldEngageData, st)
                    else (Inl (Failed ''shouldEngage'' UnexpectedResponse), st)))"

text \<open>
  \<open>shouldEngage(instructions)\<close> at clock reading \<open>now\<close>. The gate is the first
  statement; the assignment to \<open>#shouldEngageTimeCalled\<close> follows it and precedes the
  validation and the request.
\<close>

definition shouldEngage ::
  "int \<Rightarrow> fetch_result \<Rightarrow> string option \<Rightarrow> agent \<Rightarrow> (error + jsval) \<times> agent" where
  "shouldEngage now res instructions st0 =
     (if now - shouldEngageTimeCalled st0 < SHOULD_ENGAGE_THROTTLING_MS then (Inr throttled, st0)
      else let st = st0\<lparr>shouldEngageTimeCalled := now\<rparr> in
        if (case instructions of None \<Rightarrow> False | Some i \<Rightarrow> trim i = [])
          then (Inl (Failed ''shouldEngage'' InvalidInstructions), st)
        else if (case instructions of None \<Rightarrow> False | Some i \<Rightarrow> length i > MAX_MESSAGE_LENGTH)
          then (Inl (Failed ''shouldEngage'' InstructionsTooLong), st)
        else catch_rethrow ''shouldEngage'' (shouldEngage_try now res instructions st))"

text \<open>
  A sequence of calls of \<open>shouldEngage\<close>, each with its clock reading, the outcome of
  its request and its argument: the agent after the last of them.
\<close>

fun shouldEngage_calls :: "(int \<times> fetch_result \<times> string option) list \<Rightarrow> agent \<Rightarrow> agent" where
  "shouldEngage_calls [] st = st"
| "shouldEngage_calls ((now, res, instructions) # calls) st =
     shouldEngage_calls calls (snd (shouldEngage now res instructions st))"

section \<open>Rewrite route\<close>

definition rewrite_try ::
  "(string \<Rightarrow> jsnum) \<Rightarrow> int \<Rightarrow> fetch_result \<Rightarrow> string \<Rightarrow> string option \<Rightarrow> bool \<Rightarrow> agent
     \<Rightarrow> (error + string) \<times> agent" where
  "rewrite_try N now res c instructions useContext st0 =
     (let st = fetch (RewriteRequest c instructions (when_flag useContext (getContextString now st0))) st0
      in case res of
        NetworkError \<Rightarrow> (Inl Rejected, st)
      | Response r \<Rightarrow>
          let rateLimitRemaining = Number_header N (ratelimit r);
              st1 = set_rewrites N rateLimitRemaining (ratelimit r) st
          in
            if status r = 400 then (Inl (Failed ''rewrite'' BadArguments), st1)
            else if status r = 401 then (Inl (Failed ''rewrite'' AuthorizationFailed), st1)
            else if status r = 429 then
              (if \<not> isNaN rateLimitRemaining \<and> le_zero rateLimitRemaining
               then (Inl (Failed ''rewrite'' PlanLimitReached), st1)
               else (Inl (Failed ''rewrite'' TooManyRequests), st1))
            else if status r = 500 then (Inl (Failed ''rewrite'' ServerIssues), st1)
            else if status r = 502 then (Inl (Failed ''rewrite'' ExternalServiceError), st1)
            else if status r \<noteq> 200
              then (Inl (Failed ''rewrite'' (UnexpectedStatus (status r))), st1)
            else (case json_body r of
                    None \<Rightarrow> (Inl Rejected, st1)
                  | Some rewriteData \<Rightarrow>
                      if typeof_object rewriteData \<and> rewriteData \<noteq> JNull
                        then (case js_get rewriteData ''text'' of
                                JStr t \<Rightarrow> (Inr t, st1)
                              | _ \<Rightarrow> (Inl (Failed ''rewrite'' UnexpectedResponse), st1))
                      else (Inl (Failed ''rewrite'' UnexpectedResponse), st1)))"

definition rewrite ::
  "(string \<Rightarrow> jsnum) \<Rightarrow> int \<Rightarrow> fetch_result \<Rightarrow> string \<Rightarrow> string option \<Rightarrow> bool \<Rightarrow> agent
     \<Rightarrow> (error + string) \<times> agent" where
  "rewrite N now res c instructions useContext st =
     (if trim c = [] then (Inl (Failed ''rewrite'' InvalidContent), st)
      else if length c > MAX_MESSAGE_LENGTH then (Inl (Failed ''rewrite'' ContentTooLong), st)
      else if (case instructions of None \<Rightarrow> False | Some i \<Rightarrow> length i > MAX_MESSAGE_LENGTH)
        then (Inl (Failed ''rewrite'' InstructionsTooLong), st)
      else catch_rethrow ''rewrite'' (rewrite_try N now res c instructions useContext st))"

section \<open>Sort route\<close>

text \<open>\<open>array[index]\<close> for an integer index: \<open>undefined\<close> outside the array.\<close>

definition js_index :: "jsval list \<Rightarrow> int \<Rightarrow> jsval" where
  "js_index xs i = (if 0 \<le> i \<and> i < int (length xs) then xs ! nat i else JUndefined)"

text \<open>\<open>typeof idx === 'number' && Number.isInteger(idx)\<close>, and the integer it is.\<close>

definition is_integer :: "jsval \<Rightarrow> bool" where
  "is_integer v = (case v of JNum (Fin _) \<Rightarrow> True | _ \<Rightarrow> False)"

definition integer_of :: "jsval \<Rightarrow> int" where
  "integer_of v = (case v of JNum (Fin i) \<Rightarrow> i | _ \<Rightarrow> 0)"

definition sort_fallback :: "jsval \<Rightarrow> jsval" where
  "sort_fallback arg =
     JObj [(''indexes'',
            (case arg of
               JArr xs \<Rightarrow> JArr (map (\<lambda>i. JNum (Fin (int i))) [0..<length xs])
             | _ \<Rightarrow> JArr [])),
           (''warning'',
            JStr ''Input array is invalid or too short to sort. Returning original array.''),
           (''fallback'', JBool True)]"

definition sort_try ::
  "(string \<Rightarrow> jsnum) \<Rightarrow> int \<Rightarrow> fetch_result \<Rightarrow> jsval list \<Rightarrow> string option \<Rightarrow> bool \<Rightarrow> agent
     \<Rightarrow> (error + jsval) \<times> agent" where
  "sort_try N now res array instructions useContext st0 =
     (let st = fetch (SortRequest array instructions (when_flag useContext (getContextString now st0))) st0
      in case res of
        NetworkError \<Rightarrow> (Inl Rejected, st)
      | Response r \<Rightarrow>
          let rateLimitRemaining = Number_header N (ratelimit r);
              st1 = set_sorts N rateLimitRemaining (ratelimit r) st
          in
            if status r = 400 then (Inl (Failed ''sort'' BadArguments), st1)
            else if status r = 401 then (Inl (Failed ''sort'' AuthorizationFailed), st1)
            else if status r = 429 then
              (if \<not> isNaN rateLimitRemaining \<and> le_zero rateLimitRemaining
               then (Inl (Failed ''sort'' PlanLimitReached), st1)
               else (Inl (Failed ''sort'' TooManyRequests), st1))
            else if status r = 500 then (Inl (Failed ''sort'' ServerIssues), st1)
            else if status r = 502 then (Inl (Failed ''sort'' ExternalServiceError), st1)
            else if status r \<noteq> 200
              then (Inl (Failed ''sort'' (UnexpectedStatus (status r))), st1)
            else (case json_body r of
                    None \<Rightarrow> (Inl Rejected, st1)
                  | Some sortData \<Rightarrow>
                      if typeof_object sortData \<and> sortData \<noteq> JNull then
                        (case js_get sortData ''indexes'' of
                           JArr indexes \<Rightarrow>
                             if list_all is_integer indexes
                                \<and> is_string (js_get sortData ''reasoning'') then
                               (if length indexes \<noteq> length array
                                  then (Inl (Failed ''sort'' IndexesLengthMismatch), st1)
                                else
                                  (Inr (JObj
                                     [(''array'',
                                       JArr (map (\<lambda>index. js_index array (integer_of index)) indexes)),
                                      (''indexes'', JArr indexes),
                                      (''reasoning'', js_get sortData ''reasoning''),
                                      (''fallback'',
                                       (if is_bool (js_get sortData ''fallback'')
                                        then js_get sortData ''fallback'' else JBool False))]),
                                   st1))
                             else (Inl (Failed ''sort'' UnexpectedResponse), st1)
                         | _ \<Rightarrow> (Inl (Failed ''sort'' UnexpectedResponse), st1))
                      else (Inl (Failed ''sort'' UnexpectedResponse), st1)))"

text \<open>\<open>sort(array, instructions, useContext)\<close>; the name \<open>sort\<close> is the list library's.\<close>

definition sort_route ::
  "(string \<Rightarrow> jsnum) \<Rightarrow> int \<Rightarrow> fetch_result \<Rightarrow> jsval \<Rightarrow> string option \<Rightarrow> bool \<Rightarrow> agent
     \<Rightarrow> (error + jsval) \<times> agent" where
  "sort_route N now res arg instructions useContext st =
     (case arg of
        JArr array \<Rightarrow>
          if length array < 2 then (Inr (sort_fallback arg), st)
          else catch_rethrow ''sort'' (sort_try N now res array instructions useContext st)
      | _ \<Rightarrow> (Inr (sort_fallback arg), st))"

section \<open>Accessors and aliasing\<close>

text \<open>
  The getters are \<open>get messageHistory() { return this.#messageHistory ?? []; }\<close> and
  \<open>get context() { return this.#context ?? []; }\<close>. Both private fields always hold
  an array, so each getter returns the reference it holds. What a caller can do with
  that reference needs the store written out: a cell is an array of references or an
  entry object, and the agent's two fields are references into the store.
\<close>

type_synonym ref = nat

datatype cell =
    ArrayCell "ref list"
  | MessageCell string role
  | EntryCell string int

record store =
  cells :: "ref \<rightharpoonup> cell"
  next_ref :: ref

record accessors =
  messageHistory_field :: ref
  context_field :: ref

definition alloc :: "cell \<Rightarrow> store \<Rightarrow> ref \<times> store" where
  "alloc c s = (next_ref s, \<lparr>cells = (cells s)(next_ref s \<mapsto> c), next_ref = Suc (next_ref s)\<rparr>)"

text \<open>The field initialisers \<open>#messageHistory = []\<close> and \<open>#context = []\<close>.\<close>

definition new_accessors :: "accessors \<times> store" where
  "new_accessors =
     (let (h, s1) = alloc (ArrayCell []) \<lparr>cells = Map.empty, next_ref = 0\<rparr>;
          (c, s2) = alloc (ArrayCell []) s1
      in (\<lparr>messageHistory_field = h, context_field = c\<rparr>, s2))"

definition get_messageHistory :: "accessors \<Rightarrow> ref" where
  "get_messageHistory a = messageHistory_field a"

definition get_context :: "accessors \<Rightarrow> ref" where
  "get_context a = context_field a"

text \<open>\<open>array.push(object)\<close> and \<open>object.content = text\<close>, through any reference.\<close>

definition array_push :: "ref \<Rightarrow> ref \<Rightarrow> store \<Rightarrow> store" where
  "array_push arr obj s =
     (case cells s arr of
        Some (ArrayCell rs) \<Rightarrow> s\<lparr>cells := (cells s)(arr \<mapsto> ArrayCell (rs @ [obj]))\<rparr>
      | _ \<Rightarrow> s)"

definition set_content :: "ref \<Rightarrow> string \<Rightarrow> store \<Rightarrow> store" where
  "set_content obj text s =
     (case cells s obj of
        Some (MessageCell c r) \<Rightarrow> s\<lparr>cells := (cells s)(obj \<mapsto> MessageCell text r)\<rparr>
      | Some (EntryCell c t) \<Rightarrow> s\<lparr>cells := (cells s)(obj \<mapsto> EntryCell text t)\<rparr>
      | _ \<Rightarrow> s)"

definition elements :: "store \<Rightarrow> ref \<Rightarrow> ref list" where
  "elements s arr = (case cells s arr of Some (ArrayCell rs) \<Rightarrow> rs | _ \<Rightarrow> [])"

text \<open>The \<open>content\<close> fields an array shows, element by element.\<close>

definition contents :: "store \<Rightarrow> ref \<Rightarrow> string list" where
  "contents s arr =
     map (\<lambda>r. case cells s r of
                 Some (MessageCell c _) \<Rightarrow> c
               | Some (EntryCell c _) \<Rightarrow> c
               | _ \<Rightarrow> [])
         (elements s arr)"

text \<open>
  \<open>addMessage\<close> and \<open>addContextEntry\<close> on the store, after their argument checks:
  \<open>this.#messageHistory.push({content: content.trim(), role: role})\<close> and
  \<open>this.#context.push({content: content.trim(), timestamp: ...})\<close>.
\<close>

definition push_message :: "string \<Rightarrow> role \<Rightarrow> accessors \<Rightarrow> store \<Rightarrow> store" where
  "push_message c r a s =
     (let (obj, s1) = alloc (MessageCell (trim c) r) s in array_push (messageHistory_field a) obj s1)"

definition push_entry :: "string \<Rightarrow> int \<Rightarrow> accessors \<Rightarrow> store \<Rightarrow> store" where
  "push_entry c t a s =
     (let (obj, s1) = alloc (EntryCell (trim c) t) s in array_push (context_field a) obj s1)"

section \<open>Example inputs\<close>

text \<open>
  An instance of the parameter \<open>N\<close> for the examples: it agrees with \<open>Number\<close> on a
  blank text (0), on a text of decimal digits with or without a sign, and on
  \<open>Infinity\<close>, each with white space around it; fractions, exponents and radix
  prefixes are not covered by it.
\<close>

definition is_digit :: "char \<Rightarrow> bool" where
  "is_digit c = (48 \<le> (of_char c :: nat) \<and> (of_char c :: nat) \<le> 57)"

definition digits_value :: "string \<Rightarrow> int" where
  "digits_value ds = foldl (\<lambda>a c. 10 * a + (of_char c - 48)) 0 ds"

definition Number_decimal :: "string \<Rightarrow> jsnum" where
  "Number_decimal s =
     (case trim s of
        [] \<Rightarrow> Fin 0
      | c # ds \<Rightarrow>
          if c # ds = ''Infinity'' \<or> c # ds = ''+Infinity'' then PosInf
          else if c # ds = ''-Infinity'' then NegInf
          else if list_all is_digit (c # ds) then Fin (digits_value (c # ds))
          else if c = CHR ''+'' \<and> ds \<noteq> [] \<and> list_all is_digit ds then Fin (digits_value ds)
          else if c = CHR ''-'' \<and> ds \<noteq> [] \<and> list_all is_digit ds
            then Fin (- digits_value ds)
          else NaN)"

text \<open>
  An instance of the parameter \<open>P\<close>: \<open>JSON.parse\<close> on the lines of the examples, read
  as the loop reads a record.
\<close>

definition line_He :: string where
  \<open>line_He = ''{"message":"He","done":false}''\<close>

definition line_llo :: string where
  \<open>line_llo = ''{"message":"llo","done":false}''\<close>

definition line_Hi :: string where
  \<open>line_Hi = ''{"message":"Hi ","done":false}''\<close>

definition line_done :: string where
  \<open>line_done = ''{"done":true}''\<close>

definition example_parse :: "string \<Rightarrow> chunk option" where
  "example_parse =
     map_of [(line_He, Chunk (Some ''He'') False),
             (line_llo, Chunk (Some ''llo'') False),
             (line_Hi, Chunk (Some ''Hi '') False),
             (line_done, Chunk None True)]"

definition newline :: string where
  "newline = [CHR 0x0A]"

definition node_host :: host where
  "node_host = Host True False None"

definition browser_host :: host where
  "browser_host = Host False True (Some Map.empty)"

definition no_options :: options where
  "no_options = Options None None None None"

definition plain_response :: "int \<Rightarrow> jsval \<Rightarrow> fetch_result" where
  "plain_response code body =
     Response \<lparr>status = code, ratelimit = None, json_body = Some body, stream_reads = []\<rparr>"

definition limits_body :: jsval where
  "limits_body =
     JObj [(''limits'',
            JObj [(''messages'', JObj [(''remaining'', JNum (Fin 5))]),
                  (''sorts'', JObj [(''remaining'', JNum (Fin 4))]),
                  (''rewrites'', JObj [(''remaining'', JNum (Fin 3))])])]"

text \<open>
  An agent constructed on a server with the default options, after a handshake in which
  the key was valid and the limits were 5 messages, 4 sorts and 3 rewrites.
\<close>

definition ready_agent :: agent where
  "ready_agent =
     snd (initializeAgent (plain_response 200 (JObj [(''valid'', JBool True)]))
            (plain_response 200 limits_body) (new_agent node_host ''KEY'' no_options))"

text \<open>
  Two streamed replies, one read per line: the records \<open>He\<close>, \<open>llo\<close>, done; and
  the records \<open>Hi \<close> (with a trailing space), done. Both carry the header value 7.
\<close>

definition He_llo_response :: response where
  "He_llo_response =
     \<lparr>status = 200, ratelimit = Some ''7'', json_body = None,
      stream_reads = [line_He @ newline, line_llo @ newline, line_done @ newline]\<rparr>"


definition Hi_stream :: fetch_result where
  "Hi_stream =
     Response \<lparr>status = 200, ratelimit = Some ''7'', json_body = None,
               stream_reads = [line_Hi @ newline, line_done @ newline]\<rparr>"

text \<open>
  A caller holding what the getters return:
  \<^verbatim>\<open>agent.addMessage('hi', 'user'); agent.addContextEntry('ctx', 0);\<close>
  \<^verbatim>\<open>const hist = agent.messageHistory; const ctx = agent.context;\<close>
  \<^verbatim>\<open>hist.push({content: 'pushed', role: 'user'}); ctx.push({content: 'pushed', timestamp: 0});\<close>
  \<^verbatim>\<open>hist[0].content = 'bad';\<close>
\<close>

definition the_accessors :: accessors where
  "the_accessors = fst new_accessors"

definition store_filled :: store where
  "store_filled =
     push_entry ''ctx'' 0 the_accessors (push_message ''hi'' User the_accessors (snd new_accessors))"

definition store_pushed :: store where
  "store_pushed =
     (let hist = get_messageHistory the_accessors;
          ctx = get_context the_accessors;
          (m, s1) = alloc (MessageCell ''pushed'' User) store_filled;
          s2 = array_push hist m s1;
          (e, s3) = alloc (EntryCell ''pushed'' 0) s2
      in array_push ctx e s3)"

definition store_written :: store where
  "store_written =
     (let hist = get_messageHistory the_accessors
      in case elements store_pushed hist of
           [] \<Rightarrow> store_pushed
         | first # _ \<Rightarrow> set_content first ''bad'' store_pushed)"

text \<open>
  Three calls of \<open>shouldEngage\<close> on the ready agent, at 100, 110 and 120 seconds of the
  clock, each answered (if it is sent) with a well-formed decision.
\<close>

definition engage_reply :: fetch_result where
  "engage_reply =
     plain_response 200
       (JObj [(''shouldEngage'', JBool True), (''reasoning'', JStr ''go''),
              (''fallback'', JBool False)])"

definition after_first_call :: agent where
  "after_first_call = snd (shouldEngage 100000 engage_reply None ready_agent)"

definition after_second_call :: agent where
  "after_second_call = snd (shouldEngage 110000 engage_reply None after_first_call)"



text \<open>Entries handed to \<open>setContext\<close>: with a timestamp, without one, and with blank content.\<close>

definition stamped_entry :: jsval where
  "stamped_entry = JObj [(''content'', JStr ''a''), (''timestamp'', JNum (Fin 1))]"

definition plain_entry :: jsval where
  "plain_entry = JObj [(''content'', JStr ''hi'')]"

definition blank_entry :: jsval where
  "blank_entry = JObj [(''content'', JStr [])]"

section \<open>Auxiliary facts\<close>

lemma snd_catch_rethrow: "snd (catch_rethrow p res) = snd res"
  by (cases res; cases "fst res") (simp_all add: catch_rethrow_def)

lemma snd_relabel:
  "snd (case x of (Inl e, s) \<Rightarrow> (Inl (f e), s) | (Inr v, s) \<Rightarrow> (Inr (g v), s)) = snd x"
  by (cases x; cases "fst x") auto

section \<open>Evaluation of the example inputs\<close>

lemma ready_agent_eq:
  "ready_agent =
     \<lparr>agentKey = ''KEY'', useStorage = True, useMessageHistory = True, suppressWarnings = False,
      isInitialized = True,
      usageRemaining = \<lparr>messages = JNum (Fin 5), sorts = JNum (Fin 4), rewrites = JNum (Fin 3)\<rparr>,
      messageHistory = [], context = [], onInitializedCallbacks = [],
      onMessageHistoryChangeCallbacks = [], onContextChangeCallbacks = [],
      shouldEngageTimeCalled = 0, isNode = True, isBrowser = False, localStorage = None,
      requests = [VerifyKeyRequest ''KEY'', LimitsRequest],
      initializedCalls = [], messageHistoryCalls = [], contextCalls = []\<rparr>"
  by (simp add: ready_agent_def initializeAgent_def initializeAgent_try_def catch_rethrow_def
        fetchUsageRemaining_def fetchUsageRemaining_try_def plain_response_def limits_body_def
        limits_of_def remaining_of_def fetch_def new_agent_def node_host_def
        no_options_def or_default_def onInitializedExecute_def)

lemma trim_examples:
  "trim ''Hello'' = ''Hello''" "trim ''He'' = ''He''" "trim ''Hi '' = ''Hi''"
  "trim ''hi'' = ''hi''" "trim ''ctx'' = ''ctx''" "trim ''Hi!'' = ''Hi!''"
  "trim ''a'' = ''a''" "trim ''plz fix'' = ''plz fix''" "trim ''hello world'' = ''hello world''"
  "trim [] = []"
  by (simp_all add: trim_def is_space_def)

lemma split_nl_line: "CHR 0x0A \<notin> set l \<Longrightarrow> split_nl (l @ [CHR 0x0A]) = [l, []]"
  by (induction l) auto

lemma lines_no_newline:
  "CHR 0x0A \<notin> set line_He" "CHR 0x0A \<notin> set line_llo" "CHR 0x0A \<notin> set line_Hi"
  "CHR 0x0A \<notin> set line_done"
  by (simp_all add: line_He_def line_llo_def line_Hi_def line_done_def)

lemma lines_trim:
  "trim line_He = line_He" "trim line_llo = line_llo" "trim line_Hi = line_Hi"
  "trim line_done = line_done"
  by (simp_all add: trim_def is_space_def line_He_def line_llo_def line_Hi_def line_done_def)

lemma lines_nonempty:
  "line_He \<noteq> []" "line_llo \<noteq> []" "line_Hi \<noteq> []" "line_done \<noteq> []"
  by (simp_all add: line_He_def line_llo_def line_Hi_def line_done_def)

lemma lines_parse:
  "example_parse line_He = Some (Chunk (Some ''He'') False)"
  "example_parse line_llo = Some (Chunk (Some ''llo'') False)"
  "example_parse line_Hi = Some (Chunk (Some ''Hi '') False)"
  "example_parse line_done = Some (Chunk None True)"
  by (simp_all add: example_parse_def line_He_def line_llo_def line_Hi_def line_done_def)

lemma Number_decimal_examples:
  "Number_decimal [] = Fin 0" "Number_decimal '' 42 '' = Fin 42"
  "Number_decimal ''-1'' = Fin (- 1)" "Number_decimal ''abc'' = NaN"
  by (simp_all add: Number_decimal_def digits_value_def is_digit_def trim_def is_space_def)

lemma limits_as_received:
  "limits_of (JObj [(''limits'',
                     JObj [(''messages'', JObj []),
                           (''sorts'', JObj [(''remaining'', JStr ''3'')]),
                           (''rewrites'', JObj [(''remaining'', JNull)])])])
     = Some \<lparr>messages = JUndefined, sorts = JStr ''3'', rewrites = JNull\<rparr>"
  by (simp add: limits_of_def remaining_of_def)

lemma Number_decimal_7: "Number_decimal ''7'' = Fin 7"
  by (simp add: Number_decimal_def digits_value_def is_digit_def trim_def is_space_def)

lemmas stream_eval =
  messageStream_def messageStream_try_def messageStream_catch_def save_message_def
  addMessage_def modifyMessage_def process_chunk_def fragment_def
  newline_def ready_agent_eq split_nl_line lines_no_newline lines_trim lines_nonempty
  lines_parse trim_examples Number_decimal_7 fetch_def set_messages_def has_signal_def
  Number_header_def onMessageHistoryChangeExecute_def MAX_MESSAGE_LENGTH_def
  historyForStream_def Let_def



lemma Hi_result:
  "fst (messageStream Number_decimal example_parse now Hi_stream ''Hello'' True True ready_agent)
     = Inr ([''Hi ''], Some ''Hi '')"
  by (simp add: stream_eval Hi_stream_def)

lemma Hi_history:
  "messageHistory (snd (messageStream Number_decimal example_parse now Hi_stream ''Hello''
                          True True ready_agent))
     = [Message ''Hello'' User, Message ''Hi'' Assistant]"
  by (simp add: stream_eval Hi_stream_def)

section \<open>Streaming: fragments, placeholder and final value\<close>

lemma messageHistory_notify:
  "messageHistory (onMessageHistoryChangeExecute st) = messageHistory st"
  by (simp add: onMessageHistoryChangeExecute_def)












































lemma He_llo_unsaved:
  "fst (messageStream Number_decimal example_parse 0 (Response He_llo_response) ''Hello''
          True False ready_agent) = Inr ([''He'', ''llo''], Some ''Hello'')"
  by (simp add: stream_eval He_llo_response_def)


section \<open>The getters share the internal arrays\<close>

text \<open>
  C1 (accessor snapshots). The claim is that the arrays returned by the \<open>messageHistory\<close>
  and \<open>context\<close> getters are defensive copies, so that no mutation by the caller reaches
  the agent. The getters return the private arrays themselves. After one \<open>addMessage\<close>
  and one \<open>addContextEntry\<close>, a caller that pushes onto the returned arrays and assigns
  to \<open>content\<close> of a returned element changes what both getters show afterwards: the
  history reads \<open>['bad', 'pushed']\<close> instead of \<open>['hi']\<close>, the context
  \<open>['ctx', 'pushed']\<close> instead of \<open>['ctx']\<close>.
\<close>

theorem getters_return_the_internal_arrays:
  "contents store_filled (get_messageHistory the_accessors) = [''hi'']
   \<and> contents store_filled (get_context the_accessors) = [''ctx'']
   \<and> contents store_pushed (get_messageHistory the_accessors) = [''hi'', ''pushed'']
   \<and> contents store_pushed (get_context the_accessors) = [''ctx'', ''pushed'']
   \<and> contents store_written (get_messageHistory the_accessors) = [''bad'', ''pushed'']"
  by (simp add: store_written_def store_pushed_def store_filled_def the_accessors_def
        new_accessors_def alloc_def push_message_def push_entry_def array_push_def
        set_content_def contents_def elements_def get_messageHistory_def get_context_def
        trim_examples Let_def)

section \<open>The handshake and its callbacks\<close>

lemma fetchUsageRemaining_keeps:
  "initializedCalls (snd (fetchUsageRemaining res st)) = initializedCalls st"
  "onInitializedCallbacks (snd (fetchUsageRemaining res st)) = onInitializedCallbacks st"
  "isInitialized (snd (fetchUsageRemaining res st)) = isInitialized st"
  by (simp_all add: fetchUsageRemaining_def fetchUsageRemaining_try_def snd_catch_rethrow fetch_def
      split: fetch_result.split option.split)

lemma initializeAgent_try_success:
  assumes "fst (initializeAgent_try verifyKeyRes limitsRes st) = Inr u"
  shows "snd (initializeAgent_try verifyKeyRes limitsRes st)
           = onInitializedExecute (snd (fetchUsageRemaining limitsRes (st\<lparr>isInitialized := True\<rparr>)))"
  using assms
  by (cases "fetchUsageRemaining limitsRes (st\<lparr>isInitialized := True\<rparr>)")
     (auto simp: initializeAgent_try_def
        split: fetch_result.splits option.splits jsval.splits if_splits sum.splits)

text \<open>On the success path every registered callback is called once, with \<open>true\<close>.\<close>

lemma initializeAgent_success_calls_each_once:
  assumes "fst (initializeAgent verifyKeyRes limitsRes st) = Inr u"
  shows "initializedCalls (snd (initializeAgent verifyKeyRes limitsRes st))
           = initializedCalls st @ map (\<lambda>cb. (cb, True)) (onInitializedCallbacks st)"
proof -
  let ?st0 = "fetch (VerifyKeyRequest (agentKey st)) st"
  from assms have "fst (initializeAgent_try verifyKeyRes limitsRes ?st0) = Inr u"
    by (cases "initializeAgent_try verifyKeyRes limitsRes ?st0";
        cases "fst (initializeAgent_try verifyKeyRes limitsRes ?st0)")
       (simp_all add: initializeAgent_def catch_rethrow_def)
  from initializeAgent_try_success[OF this]
  have "snd (initializeAgent verifyKeyRes limitsRes st)
          = onInitializedExecute (snd (fetchUsageRemaining limitsRes (?st0\<lparr>isInitialized := True\<rparr>)))"
    by (simp add: initializeAgent_def snd_catch_rethrow)
  then show ?thesis
    by (simp add: onInitializedExecute_def fetchUsageRemaining_keeps fetch_def)
qed

text \<open>On every failing path no callback is called.\<close>

lemma initializeAgent_failure_calls_nothing:
  assumes "fst (initializeAgent verifyKeyRes limitsRes st) = Inl e"
  shows "initializedCalls (snd (initializeAgent verifyKeyRes limitsRes st)) = initializedCalls st"
  using assms
  by (auto simp: initializeAgent_def initializeAgent_try_def catch_rethrow_def fetch_def
        fetchUsageRemaining_def fetchUsageRemaining_try_def Let_def
      split: fetch_result.splits option.splits jsval.splits if_splits prod.splits sum.splits)

text \<open>
  C2 (initialization failures reach the callbacks). The claim is that after every failing
  handshake each registered callback is called exactly once with \<open>false\<close>. In the code
  every failure is a \<open>throw\<close> that leaves \<open>#initializeAgent\<close> before
  \<open>#onInitializedExecute\<close>: for a 500, another non-200 status, a body without a boolean
  \<open>valid\<close>, \<open>valid: false\<close> and a rejected request, the handshake ends in an error and
  the registered callback has not been called.
\<close>

theorem failed_handshake_calls_no_callback:
  "fst (initializeAgent (plain_response 500 JNull) limitsRes
          (onInitialized cb (new_agent node_host ''KEY'' no_options)))
     = Inl (Failed ''Agent initialization'' ServerIssues)
   \<and> initializedCalls (snd (initializeAgent (plain_response 500 JNull) limitsRes
          (onInitialized cb (new_agent node_host ''KEY'' no_options)))) = []
   \<and> fst (initializeAgent (plain_response 404 JNull) limitsRes
          (onInitialized cb (new_agent node_host ''KEY'' no_options)))
     = Inl (Failed ''Agent initialization'' SomethingWentWrong)
   \<and> initializedCalls (snd (initializeAgent (plain_response 404 JNull) limitsRes
          (onInitialized cb (new_agent node_host ''KEY'' no_options)))) = []
   \<and> fst (initializeAgent (plain_response 200 (JObj [(''valid'', JStr ''nope'')])) limitsRes
          (onInitialized cb (new_agent node_host ''KEY'' no_options)))
     = Inl (Failed ''Agent initialization'' UnexpectedResponse)
   \<and> initializedCalls (snd (initializeAgent (plain_response 200 (JObj [(''valid'', JStr ''nope'')]))
          limitsRes (onInitialized cb (new_agent node_host ''KEY'' no_options)))) = []
   \<and> fst (initializeAgent (plain_response 200 (JObj [(''valid'', JBool False)])) limitsRes
          (onInitialized cb (new_agent node_host ''KEY'' no_options)))
     = Inl (Failed ''Agent initialization'' InvalidAgentKey)
   \<and> initializedCalls (snd (initializeAgent (plain_response 200 (JObj [(''valid'', JBool False)]))
          limitsRes (onInitialized cb (new_agent node_host ''KEY'' no_options)))) = []
   \<and> fst (initializeAgent NetworkError limitsRes
          (onInitialized cb (new_agent node_host ''KEY'' no_options)))
     = Inl (Unexpected ''Agent initialization'' Rejected)
   \<and> initializedCalls (snd (initializeAgent NetworkError limitsRes
          (onInitialized cb (new_agent node_host ''KEY'' no_options)))) = []"
  by (simp add: initializeAgent_def initializeAgent_try_def catch_rethrow_def rethrow_def
        plain_response_def fetch_def onInitialized_def new_agent_def)

section \<open>Usage counters after a metered call\<close>

lemma usage_save_message:
  "usageRemaining (snd (save_message flag c r st)) = usageRemaining st"
  by (simp add: save_message_def addMessage_def onMessageHistoryChangeExecute_def)

lemma usage_fetch: "usageRemaining (fetch rq st) = usageRemaining st"
  by (simp add: fetch_def)

text \<open>
  \<open>counter--\<close> on what the limits route may have stored: a number, \<open>null\<close>, a
  missing \<open>remaining\<close> (\<open>undefined\<close>), a numeric text, an array.
\<close>

lemma decrement_examples:
  "decrement N (JNum (Fin 5)) = JNum (Fin 4)"
  "decrement N JNull = JNum (Fin (- 1))"
  "decrement N JUndefined = JNum NaN"
  "decrement Number_decimal (JStr ''3'') = JNum (Fin 2)"
  "decrement Number_decimal (JArr [JNum (Fin 3)]) = JNum (Fin 2)"
  "decrement Number_decimal (JArr [JNum (Fin 1), JNum (Fin 2)]) = JNum NaN"
  by (simp_all add: decrement_def ToNumber_def Number_decimal_def digits_value_def show_num_def
        show_nat.simps char_of_def bit_Suc_0_iff is_digit_def trim_def is_space_def)

lemma rewrite_try_counter:
  "rewrites (usageRemaining (snd (rewrite_try N now (Response r) c instructions useContext st)))
     = (if has_signal (Number_header N (ratelimit r)) (ratelimit r)
        then JNum (Number_header N (ratelimit r))
        else decrement N (rewrites (usageRemaining st)))"
  by (simp add: rewrite_try_def set_rewrites_def usage_fetch Let_def
      split: option.split jsval.split)

lemma sort_try_counter:
  "sorts (usageRemaining (snd (sort_try N now (Response r) array instructions useContext st)))
     = (if has_signal_sort (Number_header N (ratelimit r)) (ratelimit r)
        then JNum (Number_header N (ratelimit r))
        else decrement N (sorts (usageRemaining st)))"
  by (simp add: sort_try_def set_sorts_def usage_fetch Let_def
      split: option.split jsval.split)

lemma message_try_counter:
  "messages (usageRemaining (snd (message_try N now (Response r) c useContext save st)))
     = (if has_signal (Number_header N (ratelimit r)) (ratelimit r)
        then JNum (Number_header N (ratelimit r))
        else decrement N (messages (usageRemaining st)))"
  by (simp add: message_try_def set_messages_def usage_fetch usage_save_message snd_relabel Let_def
      split: option.split jsval.split)

text \<open>
  \<open>message\<close>, \<open>rewrite\<close> and \<open>messageStream\<close> treat the signal as the
  specification says: a numeric header overwrites the counter, anything else decrements it.
\<close>

lemma message_counter:
  assumes "isInitialized st" and "trim c \<noteq> []" and "length c \<le> MAX_MESSAGE_LENGTH"
  shows "messages (usageRemaining (snd (message N now (Response r) c useContext save st)))
           = (if has_signal (Number_header N (ratelimit r)) (ratelimit r)
              then JNum (Number_header N (ratelimit r))
              else decrement N (messages (usageRemaining st)))"
proof (cases "save_message save c User st")
  case (Pair res st1)
  have u: "usageRemaining st1 = usageRemaining st"
    using usage_save_message[of save c User st] Pair by simp
  have "\<exists>i. res = Inr i"
    using Pair assms(3) by (auto simp: save_message_def addMessage_def split: if_splits)
  then obtain i where "res = Inr i" ..
  with Pair assms show ?thesis
    by (simp add: message_def snd_catch_rethrow message_try_counter u)
qed

lemma rewrite_counter:
  assumes "trim c \<noteq> []" and "length c \<le> MAX_MESSAGE_LENGTH"
    and "instructions = None \<or> length (the instructions) \<le> MAX_MESSAGE_LENGTH"
  shows "rewrites (usageRemaining (snd (rewrite N now (Response r) c instructions useContext st)))
           = (if has_signal (Number_header N (ratelimit r)) (ratelimit r)
              then JNum (Number_header N (ratelimit r))
              else decrement N (rewrites (usageRemaining st)))"
proof -
  have "\<not> (case instructions of None \<Rightarrow> False | Some i \<Rightarrow> length i > MAX_MESSAGE_LENGTH)"
    using assms(3) by (cases instructions) auto
  with assms(1,2) show ?thesis
    by (simp add: rewrite_def snd_catch_rethrow rewrite_try_counter)
qed

lemma usage_modifyMessage:
  "usageRemaining (snd (modifyMessage idx c r st)) = usageRemaining st"
  by (simp add: modifyMessage_def onMessageHistoryChangeExecute_def split: option.split)

lemma usage_process_chunk:
  "usageRemaining (snd (snd (flow_value (process_chunk save idx ch (f, ys, st)))))
     = usageRemaining st"
proof (cases "modifyMessage (map_option int idx) (f @ fragment ch) (Some Assistant) st")
  case (Pair res st')
  with usage_modifyMessage[of "map_option int idx" "f @ fragment ch" "Some Assistant" st]
  have "usageRemaining st' = usageRemaining st" by simp
  with Pair show ?thesis
    by (cases res) (simp_all add: process_chunk_def flow_value_def Let_def)
qed

lemma usage_for_lines:
  "usageRemaining (snd (snd (flow_value (for_lines P save idx lines (f, ys, st)))))
     = usageRemaining st"
proof (induction lines arbitrary: f ys st)
  case Nil
  show ?case by (simp add: flow_value_def)
next
  case (Cons line lines)
  show ?case
  proof (cases "trim line = []")
    case True
    with Cons show ?thesis by simp
  next
    case False
    show ?thesis
    proof (cases "P (trim line)")
      case None
      with False Cons show ?thesis by simp
    next
      case (Some ch)
      show ?thesis
      proof (cases "process_chunk save idx ch (f, ys, st)")
        case (Continue s')
        obtain f' ys' st' where s': "s' = (f', ys', st')" by (cases s') auto
        with Continue usage_process_chunk[of save idx ch f ys st]
        have "usageRemaining st' = usageRemaining st" by (simp add: flow_value_def)
        with False Some Continue s' Cons[of f' ys' st'] show ?thesis by simp
      next
        case (Return s')
        with usage_process_chunk[of save idx ch f ys st] False Some show ?thesis
          by (simp add: flow_value_def)
      qed
    qed
  qed
qed

lemma usage_read_loop:
  "usageRemaining (snd (snd (flow_value (read_loop P save idx reads buffer (f, ys, st)))))
     = usageRemaining st"
proof (induction reads arbitrary: buffer f ys st)
  case Nil
  show ?case by (simp add: flow_value_def)
next
  case (Cons v reads)
  show ?case
  proof (cases "for_lines P save idx (butlast (split_nl (buffer @ v))) (f, ys, st)")
    case (Continue s')
    obtain f' ys' st' where s': "s' = (f', ys', st')" by (cases s') auto
    with Continue usage_for_lines[of P save idx "butlast (split_nl (buffer @ v))" f ys st]
    have "usageRemaining st' = usageRemaining st" by (simp add: flow_value_def)
    with Continue s' Cons[of "last (split_nl (buffer @ v))" f' ys' st'] show ?thesis
      by (simp add: Let_def)
  next
    case (Return s')
    with usage_for_lines[of P save idx "butlast (split_nl (buffer @ v))" f ys st] show ?thesis
      by (simp add: flow_value_def Let_def)
  qed
qed

lemma messageStream_try_counter:
  "messages (usageRemaining (snd (messageStream_try N P now (Response r) c useContext save idx st)))
     = (if has_signal (Number_header N (ratelimit r)) (ratelimit r)
        then JNum (Number_header N (ratelimit r))
        else decrement N (messages (usageRemaining st)))"
proof -
  let ?st1 = "set_messages N (Number_header N (ratelimit r)) (ratelimit r)
                (fetch (MessageRequest c
                          (when_flag (useMessageHistory st) (historyForStream idx (messageHistory st)))
                          True (when_flag useContext (getContextString now st))) st)"
  have u: "messages (usageRemaining ?st1)
             = (if has_signal (Number_header N (ratelimit r)) (ratelimit r)
                then JNum (Number_header N (ratelimit r))
                else decrement N (messages (usageRemaining st)))"
    by (simp add: set_messages_def usage_fetch)
  have "usageRemaining (snd (messageStream_try N P now (Response r) c useContext save idx st))
          = usageRemaining ?st1"
    using usage_read_loop[of P save idx "stream_reads r" "[]" "[]" "[]" ?st1]
    by (cases "read_loop P save idx (stream_reads r) [] ([], [], ?st1)")
       (auto simp: messageStream_try_def flow_value_def Let_def)
  with u show ?thesis by simp
qed

lemma usage_messageStream_catch:
  "usageRemaining (snd (messageStream_catch idx res)) = usageRemaining (snd res)"
proof (cases res)
  case (Pair x st)
  show ?thesis
  proof (cases x)
    case (Inl e)
    with Pair usage_modifyMessage[of "map_option int idx"
        "''An error occurred while processing your request. Please try again later.''" None st]
    show ?thesis
      by (cases "modifyMessage (map_option int idx)
                   ''An error occurred while processing your request. Please try again later.''
                   None st")
         (auto simp: messageStream_catch_def split: sum.split)
  next
    case (Inr v)
    with Pair show ?thesis by (simp add: messageStream_catch_def)
  qed
qed

lemma messageStream_counter:
  assumes "isInitialized st" and "trim c \<noteq> []" and "length c \<le> MAX_MESSAGE_LENGTH"
  shows "messages (usageRemaining (snd (messageStream N P now (Response r) c useContext save st)))
           = (if has_signal (Number_header N (ratelimit r)) (ratelimit r)
              then JNum (Number_header N (ratelimit r))
              else decrement N (messages (usageRemaining st)))"
proof (cases "save_message save c User st")
  case user: (Pair res1 st1)
  have u1: "usageRemaining st1 = usageRemaining st"
    using usage_save_message[of save c User st] user by simp
  have "\<exists>i. res1 = Inr i"
    using user assms(3) by (auto simp: save_message_def addMessage_def split: if_splits)
  then obtain i where r1: "res1 = Inr i" ..
  show ?thesis
  proof (cases "save_message save [] Assistant st1")
    case placeholder: (Pair res2 st2)
    have u2: "usageRemaining st2 = usageRemaining st"
      using usage_save_message[of save "[]" Assistant st1] placeholder u1 by simp
    have "\<exists>j. res2 = Inr j"
      using placeholder
      by (auto simp: save_message_def addMessage_def MAX_MESSAGE_LENGTH_def split: if_splits)
    then obtain j where r2: "res2 = Inr j" ..
    from assms user r1 placeholder r2 show ?thesis
      by (simp add: messageStream_def usage_messageStream_catch messageStream_try_counter u2)
  qed
qed

text \<open>\<open>sort\<close> overwrites the counter whenever the converted header is not \<open>NaN\<close>.\<close>

lemma sort_counter:
  assumes "2 \<le> length array"
  shows "sorts (usageRemaining (snd (sort_route N now (Response r) (JArr array) instructions
                                       useContext st)))
           = (if \<not> isNaN (Number_header N (ratelimit r))
              then JNum (Number_header N (ratelimit r))
              else decrement N (sorts (usageRemaining st)))"
proof -
  have "has_signal_sort (Number_header N (ratelimit r)) (ratelimit r)
          = (\<not> isNaN (Number_header N (ratelimit r)))"
    by (cases "Number_header N (ratelimit r)") (auto simp: has_signal_sort_def falsy_num_def)
  with assms show ?thesis
    by (simp add: sort_route_def snd_catch_rethrow sort_try_counter)
qed

text \<open>
  C3 (usage counters). The claim is that a metered call overwrites its counter with a
  numeric remaining-quota signal and otherwise decrements it by one. For \<open>sort\<close> the
  test around \<open>isNaN\<close> is mis-parenthesised: when the header is absent,
  \<open>Number(null)\<close> is 0 and the counter is overwritten with 0. On the ready agent
  (4 sorts, 3 rewrites left) a successful \<open>sort\<close> without the header leaves 0 sorts,
  where a \<open>rewrite\<close> without the header leaves 2 rewrites. The lemmas
  \<open>message_counter\<close>, \<open>messageStream_counter\<close> and \<open>rewrite_counter\<close> above show
  that the three other methods do what the claim says.
\<close>

theorem sort_without_signal_zeroes_counter:
  "sorts (usageRemaining ready_agent) = JNum (Fin 4)
   \<and> sorts (usageRemaining (snd (sort_route N now
        (plain_response 200
           (JObj [(''indexes'', JArr [JNum (Fin 1), JNum (Fin 0)]), (''reasoning'', JStr ''ok'')]))
        (JArr [JStr ''b'', JStr ''a'']) None True ready_agent))) = JNum (Fin 0)
   \<and> rewrites (usageRemaining ready_agent) = JNum (Fin 3)
   \<and> rewrites (usageRemaining (snd (rewrite N now
        (plain_response 200 (JObj [(''text'', JStr ''Fixed.'')]))
        ''plz fix'' None True ready_agent))) = JNum (Fin 2)"
  by (simp add: sort_counter rewrite_counter plain_response_def Number_header_def has_signal_def
        decrement_def ToNumber_def
        ready_agent_eq trim_examples MAX_MESSAGE_LENGTH_def)

section \<open>Greeting and the history\<close>

text \<open>The outcome of \<open>greet\<close> does not depend on \<open>saveToMessageHistory\<close>.\<close>

lemma greet_ignores_flag:
  "greet N now res instructions useContext saveToMessageHistory st
     = greet N now res instructions useContext (\<not> saveToMessageHistory) st"
  by (simp only: greet_def)

text \<open>
  C4 (greet and the history). The claim is that \<open>greet\<close> appends the reply to the
  history if and only if \<open>saveToMessageHistory\<close> is true. The code appends it in every
  successful call: \<open>greet(undefined, true, false)\<close> on the ready agent, answered with
  \<open>'Hi!'\<close>, returns \<open>'Hi!'\<close> and leaves the assistant message \<open>'Hi!'\<close> in a history
  that was empty. The one request it sends is that of \<open>message\<close> with the context
  string included and with no user message saved, as the claim says.
\<close>

theorem greet_saves_reply_regardless:
  "fst (greet N now (plain_response 200 (JObj [(''message'', JStr ''Hi!'')])) None True False
          ready_agent) = Inr ''Hi!''
   \<and> messageHistory ready_agent = []
   \<and> messageHistory (snd (greet N now (plain_response 200 (JObj [(''message'', JStr ''Hi!'')]))
                              None True False ready_agent))
       = [Message ''Hi!'' Assistant]
   \<and> requests (snd (greet N now (plain_response 200 (JObj [(''message'', JStr ''Hi!'')]))
                        None True False ready_agent))
       = requests ready_agent
           @ [MessageRequest
                (''Greet the visitor in one short, friendly sentence. Encourage interaction. Sound human.''
                 @ '' Mention their interests or passions subtly.'')
                (Some []) False (Some [])]"
  by (simp add: greet_def message_def message_try_def catch_rethrow_def save_message_def
        addMessage_def effectiveInstructions_def plain_response_def ready_agent_eq fetch_def
        set_messages_def onMessageHistoryChangeExecute_def trim_def is_space_def
        when_flag_def getContextString_def MAX_MESSAGE_LENGTH_def Let_def)

section \<open>Persistence of the context\<close>

lemma notifyContext_fields:
  "context (notifyContext cs st) = context st"
  "isNode (notifyContext cs st) = isNode st"
  "isBrowser (notifyContext cs st) = isBrowser st"
proof (induction cs arbitrary: st)
  case Nil
  {
    case 1 show ?case by simp
  next
    case 2 show ?case by simp
  next
    case 3 show ?case by simp
  }
next
  case (Cons c cs)
  {
    case 1 show ?case
      by (cases c) (simp_all add: Cons setStorageItem_def split: option.split)
  next
    case 2 show ?case
      by (cases c) (simp_all add: Cons setStorageItem_def split: option.split)
  next
    case 3 show ?case
      by (cases c) (simp_all add: Cons setStorageItem_def split: option.split)
  }
qed

lemma setStorageItem_fields:
  "context (snd (setStorageItem key v st)) = context st"
  "isNode (snd (setStorageItem key v st)) = isNode st"
  "isBrowser (snd (setStorageItem key v st)) = isBrowser st"
  by (simp_all add: setStorageItem_def split: option.split)

lemma setStorageItem_browser:
  assumes "localStorage st = Some m" and "\<not> (isNode st \<and> \<not> isBrowser st)"
    and "key \<noteq> []" and "v \<noteq> JUndefined"
  shows "localStorage (snd (setStorageItem key v st)) = Some (m(key \<mapsto> Serialized v))"
proof -
  from assms(2) have "(isNode st \<and> \<not> isBrowser st) = False" by simp
  with assms(1,3,4) have "snd (setStorageItem key v st)
      = st\<lparr>localStorage := Some (m(key \<mapsto> Serialized v))\<rparr>"
    by (simp only: setStorageItem_def if_False option.case snd_conv)
  then show ?thesis by simp
qed

lemma notifyContext_storage:
  assumes "localStorage st = Some m" and "\<not> (isNode st \<and> \<not> isBrowser st)"
  shows "localStorage (notifyContext cs st)
           = (if StorageSync \<in> set cs
              then Some (m(''context'' \<mapsto> Serialized (JArr (map entry_to_js (context st)))))
              else Some m)"
  using assms
proof (induction cs arbitrary: st m)
  case Nil
  then show ?case by simp
next
  case (Cons c cs)
  show ?case
  proof (cases c)
    case StorageSync
    define v where "v = Serialized (JArr (map entry_to_js (context st)))"
    define st' where "st' = snd (setStorageItem ''context'' (JArr (map entry_to_js (context st))) st)"
    have p1: "localStorage st' = Some (m(''context'' \<mapsto> v))"
      unfolding st'_def v_def using Cons.prems by (intro setStorageItem_browser) simp_all
    have p2: "\<not> (isNode st' \<and> \<not> isBrowser st')"
      using Cons.prems(2) by (simp add: st'_def setStorageItem_fields)
    have c: "Serialized (JArr (map entry_to_js (context st'))) = v"
      by (simp add: st'_def v_def setStorageItem_fields)
    have "localStorage (notifyContext cs st')
            = (if StorageSync \<in> set cs
               then Some ((m(''context'' \<mapsto> v))
                            (''context'' \<mapsto> Serialized (JArr (map entry_to_js (context st')))))
               else Some (m(''context'' \<mapsto> v)))"
      using p1 p2 by (rule Cons.IH)
    then have "localStorage (notifyContext cs st') = Some (m(''context'' \<mapsto> v))"
      by (simp only: c fun_upd_upd if_cancel)
    moreover have "notifyContext (c # cs) st = notifyContext cs st'"
      using StorageSync by (simp only: notifyContext.simps st'_def)
    moreover have "StorageSync \<in> set (c # cs)"
      using StorageSync by simp
    ultimately show ?thesis
      by (simp only: v_def if_True)
  next
    case (ContextCallback cb)
    define st' where "st' = st\<lparr>contextCalls := contextCalls st @ [(cb, context st)]\<rparr>"
    have p1: "localStorage st' = Some m" using Cons.prems(1) by (simp add: st'_def)
    have p2: "\<not> (isNode st' \<and> \<not> isBrowser st')" using Cons.prems(2) by (simp add: st'_def)
    have c: "context st' = context st" by (simp add: st'_def)
    have "localStorage (notifyContext cs st')
            = (if StorageSync \<in> set cs
               then Some (m(''context'' \<mapsto> Serialized (JArr (map entry_to_js (context st')))))
               else Some m)"
      using p1 p2 by (rule Cons.IH)
    moreover have "notifyContext (c # cs) st = notifyContext cs st'"
      using ContextCallback by (simp only: notifyContext.simps st'_def)
    moreover have "(StorageSync \<in> set (c # cs)) = (StorageSync \<in> set cs)"
      using ContextCallback by simp
    ultimately show ?thesis
      by (simp only: c)
  qed
qed

lemma onContextChangeExecute_writes:
  assumes "StorageSync \<in> set (onContextChangeCallbacks st)"
    and "localStorage st = Some m" and "\<not> (isNode st \<and> \<not> isBrowser st)"
  shows "localStorage (onContextChangeExecute st)
           = Some (m(''context'' \<mapsto> Serialized (JArr (map entry_to_js (context st)))))"
  using assms(1) notifyContext_storage[OF assms(2,3), of "onContextChangeCallbacks st"]
  by (simp only: onContextChangeExecute_def if_True)

text \<open>
  The constructor installs the storage subscriber and restores a valid array found under
  the key \<open>context\<close>.
\<close>

lemma new_agent_fields:
  "useStorage (new_agent h key opts) = or_default (opt_useStorage opts) True"
  "isNode (new_agent h key opts) = host_isNode h"
  "isBrowser (new_agent h key opts) = host_isBrowser h"
  "localStorage (new_agent h key opts) = host_localStorage h"
  "onContextChangeCallbacks (new_agent h key opts) = []"
  "context (new_agent h key opts) = []"
  by (simp_all add: new_agent_def)

lemma onContextChange_fields:
  "useStorage (onContextChange cb st) = useStorage st"
  "isNode (onContextChange cb st) = isNode st"
  "isBrowser (onContextChange cb st) = isBrowser st"
  "localStorage (onContextChange cb st) = localStorage st"
  "onContextChangeCallbacks (onContextChange cb st) = onContextChangeCallbacks st @ [cb]"
  "context (onContextChange cb st) = context st"
  by (simp_all add: onContextChange_def)

lemma restore_context_fields:
  "useStorage (restore_context now item st) = useStorage st"
  "onContextChangeCallbacks (restore_context now item st) = onContextChangeCallbacks st"
  by (simp_all add: restore_context_def split: option.split stored.split jsval.split)

lemma trim_context_key: "trim ''context'' = ''context''"
  by (simp add: trim_def is_space_def)

lemma constructor_subscribes:
  assumes "constructor h now key opts = Inr st" and "useStorage st"
  shows "onContextChangeCallbacks st = [StorageSync]"
proof (cases "useStorage (new_agent h key opts)")
  case True
  with assms(1) have "\<exists>item. st = restore_context now item (onContextChange StorageSync (new_agent h key opts))"
    by (cases "getStorageItem ''context'' (onContextChange StorageSync (new_agent h key opts))")
       (auto simp: constructor_def Let_def split: if_splits)
  then show ?thesis
    by (auto simp: restore_context_fields onContextChange_fields new_agent_fields)
next
  case False
  with assms(1) have "st = new_agent h key opts"
    by (auto simp: constructor_def Let_def split: if_splits)
  with False assms(2) show ?thesis by simp
qed

lemma constructor_restores:
  assumes "key \<noteq> []" and "opt_useStorage opts \<noteq> Some False"
    and "host_localStorage h = Some m" and "\<not> (host_isNode h \<and> \<not> host_isBrowser h)"
    and "m ''context'' = Some (Serialized (JArr es))" and "list_all valid_entry es"
  shows "\<exists>st. constructor h now key opts = Inr st \<and> context st = map (copy_entry now) es"
proof -
  let ?st1 = "onContextChange StorageSync (new_agent h key opts)"
  have u: "useStorage (new_agent h key opts)"
    using assms(2) by (cases "opt_useStorage opts") (auto simp: new_agent_fields or_default_def)
  have env: "(isNode ?st1 \<and> \<not> isBrowser ?st1) = False"
    using assms(4) by (simp add: onContextChange_fields new_agent_fields)
  have "getStorageItem ''context'' ?st1 = Inr (Some (Serialized (JArr es)))"
    using assms(3,5) env
    by (simp add: getStorageItem_def trim_context_key onContextChange_fields new_agent_fields)
  with assms(1) u have "constructor h now key opts
      = Inr (restore_context now (Some (Serialized (JArr es))) ?st1)"
    by (simp add: constructor_def Let_def)
  moreover have "context (restore_context now (Some (Serialized (JArr es))) ?st1)
      = map (copy_entry now) es"
    using assms(6) by (simp add: restore_context_def)
  ultimately show ?thesis by blast
qed

text \<open>
  C5 (storage key). The claim is that the context is written under a key of the form
  \<open><product>:<agentIdentity>:context\<close>. The constructor ignores the \<open>agentId\<close>
  option and both reads and writes the fixed key \<open>context\<close>: in a browser, an agent
  constructed with \<open>agentId: 'A2'\<close> that adds one entry leaves a store whose only key is
  \<open>context\<close>, so nothing is stored under \<open>heylock:A2:context\<close>. That every context
  change is written and that the key is read once, at construction, is as claimed
  (lemmas \<open>onContextChangeExecute_writes\<close>, \<open>constructor_subscribes\<close> and
  \<open>constructor_restores\<close>).
\<close>

theorem context_saved_under_fixed_key:
  "constructor browser_host now ''KEY'' (Options None None None (Some ''A2''))
     = Inr (onContextChange StorageSync
              (new_agent browser_host ''KEY'' (Options None None None (Some ''A2''))))
   \<and> localStorage (snd (addContextEntry now ''hello world'' (Some (Fin 0))
        (onContextChange StorageSync
           (new_agent browser_host ''KEY'' (Options None None None (Some ''A2''))))))
     = Some [''context'' \<mapsto>
               Serialized (JArr [JObj [(''content'', JStr ''hello world''),
                                       (''timestamp'', JNum (Fin 0))]])]"
  by (simp add: constructor_def getStorageItem_def restore_context_def onContextChange_def
        new_agent_def browser_host_def or_default_def addContextEntry_def valid_timestamp_def
        timestamp_or_def onContextChangeExecute_def setStorageItem_def entry_to_js_def
        trim_def is_space_def MAX_CONTEXT_ENTRY_LENGTH_def Let_def)

section \<open>The engagement throttle\<close>

lemma shouldEngage_gate:
  assumes "now - shouldEngageTimeCalled st < SHOULD_ENGAGE_THROTTLING_MS"
  shows "shouldEngage now res instructions st = (Inr throttled, st)"
  using assms by (simp add: shouldEngage_def)

lemma timer_shouldEngage_try:
  "shouldEngageTimeCalled (snd (shouldEngage_try now res instructions st))
     = shouldEngageTimeCalled st"
  by (simp add: shouldEngage_try_def fetch_def Let_def split: fetch_result.split option.split)

lemma shouldEngage_timer:
  assumes "SHOULD_ENGAGE_THROTTLING_MS \<le> now - shouldEngageTimeCalled st"
  shows "shouldEngageTimeCalled (snd (shouldEngage now res instructions st)) = now"
  using assms
  by (simp add: shouldEngage_def Let_def snd_catch_rethrow timer_shouldEngage_try)

lemma after_first_call_eq:
  "after_first_call =
     ready_agent\<lparr>shouldEngageTimeCalled := 100000,
                 requests := [VerifyKeyRequest ''KEY'', LimitsRequest, ShouldEngageRequest None []]\<rparr>"
  by (simp add: after_first_call_def shouldEngage_def shouldEngage_try_def catch_rethrow_def
        engage_reply_def plain_response_def ready_agent_eq fetch_def getContextString_def
        is_bool_def is_string_def SHOULD_ENGAGE_THROTTLING_MS_def Let_def)

lemma after_second_call_eq: "after_second_call = after_first_call"
  by (simp add: after_second_call_def after_first_call_eq shouldEngage_def
        SHOULD_ENGAGE_THROTTLING_MS_def)

text \<open>The timer never moves back: a call leaves it, or sets it at least 15000 ms later.\<close>

lemma shouldEngage_timer_grows:
  "shouldEngageTimeCalled st \<le> shouldEngageTimeCalled (snd (shouldEngage now res instructions st))"
proof (cases "now - shouldEngageTimeCalled st < SHOULD_ENGAGE_THROTTLING_MS")
  case True
  then show ?thesis by (simp add: shouldEngage_gate)
next
  case False
  then have "shouldEngageTimeCalled (snd (shouldEngage now res instructions st)) = now"
    by (simp add: shouldEngage_timer)
  with False show ?thesis by (simp add: SHOULD_ENGAGE_THROTTLING_MS_def)
qed

lemma shouldEngage_calls_timer_grows:
  "shouldEngageTimeCalled st \<le> shouldEngageTimeCalled (shouldEngage_calls calls st)"
proof (induction calls arbitrary: st)
  case Nil
  show ?case by simp
next
  case (Cons call calls)
  obtain now res instructions where call: "call = (now, res, instructions)"
    by (cases call) auto
  have "shouldEngageTimeCalled st
          \<le> shouldEngageTimeCalled (snd (shouldEngage now res instructions st))"
    by (rule shouldEngage_timer_grows)
  also have "\<dots> \<le> shouldEngageTimeCalled
                      (shouldEngage_calls calls (snd (shouldEngage now res instructions st)))"
    by (rule Cons.IH)
  finally show ?case by (simp add: call)
qed

text \<open>
  After a call that passed the gate at \<open>t1\<close>, a call less than 15000 ms later is
  throttled, whatever calls of \<open>shouldEngage\<close> lie between the two.
\<close>

lemma shouldEngage_pair:
  assumes "SHOULD_ENGAGE_THROTTLING_MS \<le> t1 - shouldEngageTimeCalled st"
    and "t2 - t1 < SHOULD_ENGAGE_THROTTLING_MS"
  shows "shouldEngage t2 res2 instructions2
           (shouldEngage_calls between (snd (shouldEngage t1 res1 instructions1 st)))
         = (Inr throttled,
            shouldEngage_calls between (snd (shouldEngage t1 res1 instructions1 st)))"
proof -
  have "shouldEngageTimeCalled (snd (shouldEngage t1 res1 instructions1 st)) = t1"
    using assms(1) by (rule shouldEngage_timer)
  with shouldEngage_calls_timer_grows[of "snd (shouldEngage t1 res1 instructions1 st)" between]
  have "t1 \<le> shouldEngageTimeCalled
                (shouldEngage_calls between (snd (shouldEngage t1 res1 instructions1 st)))"
    by simp
  with assms(2) show ?thesis by (intro shouldEngage_gate) simp
qed

text \<open>
  A throttled call leaves the timer where it was, so it starts no window of its own:
  after calls at 100 s (sent) and 110 s (throttled), the call at 120 s is 20 seconds after
  the call that set the timer; it passes the gate and sends a request.
\<close>

lemma throttled_call_starts_no_window:
  "fst (shouldEngage 110000 engage_reply None after_first_call) = Inr throttled
   \<and> shouldEngageTimeCalled after_second_call = 100000
   \<and> fst (shouldEngage 120000 engage_reply None after_second_call)
       = Inr (JObj [(''shouldEngage'', JBool True), (''reasoning'', JStr ''go''),
                    (''fallback'', JBool False)])
   \<and> requests (snd (shouldEngage 120000 engage_reply None after_second_call))
       = requests after_second_call @ [ShouldEngageRequest None []]"
  by (simp add: after_second_call_eq after_first_call_eq shouldEngage_def shouldEngage_try_def
        catch_rethrow_def engage_reply_def plain_response_def ready_agent_eq fetch_def
        getContextString_def is_bool_def is_string_def SHOULD_ENGAGE_THROTTLING_MS_def Let_def)

text \<open>
  C7 (engagement throttle). The first call of a pair is a call that passed the gate: it is
  the call whose clock reading the timer holds, and the window is counted from it. For
  every such call at \<open>t1\<close>, every call at \<open>t2\<close> with \<open>t2 - t1 < 15000\<close> ms, whatever
  calls of \<open>shouldEngage\<close> lie between the two, returns \<open>{shouldEngage: false,
  reasoning: '', warning: <cooldown notice>, fallback: true}\<close> and leaves the agent as it
  was: no request is logged and the timer is not reset. In general, a call whose clock
  reading is less than 15000 ms after the stored timestamp is answered so. A call at or
  beyond the window stores its clock reading as the timestamp, whatever the validation and
  the request do afterwards.
\<close>

theorem shouldEngage_cooldown:
  "(SHOULD_ENGAGE_THROTTLING_MS \<le> t1 - shouldEngageTimeCalled st1
        \<and> t2 - t1 < SHOULD_ENGAGE_THROTTLING_MS \<longrightarrow>
      shouldEngage t2 res2 instructions2
        (shouldEngage_calls between (snd (shouldEngage t1 res1 instructions1 st1)))
        = (Inr throttled,
           shouldEngage_calls between (snd (shouldEngage t1 res1 instructions1 st1))))
   \<and> (SHOULD_ENGAGE_THROTTLING_MS \<le> t1 - shouldEngageTimeCalled st1
        \<and> t2 - t1 < SHOULD_ENGAGE_THROTTLING_MS \<longrightarrow>
      shouldEngage t2 res2 instructions2 (snd (shouldEngage t1 res1 instructions1 st1))
        = (Inr throttled, snd (shouldEngage t1 res1 instructions1 st1)))
   \<and> (now - shouldEngageTimeCalled st < SHOULD_ENGAGE_THROTTLING_MS \<longrightarrow>
      shouldEngage now res instructions st = (Inr throttled, st))
   \<and> (SHOULD_ENGAGE_THROTTLING_MS \<le> t - shouldEngageTimeCalled st3 \<longrightarrow>
      shouldEngageTimeCalled (snd (shouldEngage t res3 instructions3 st3)) = t)
   \<and> js_get throttled ''shouldEngage'' = JBool False
   \<and> js_get throttled ''reasoning'' = JStr []
   \<and> js_get throttled ''warning''
       = JStr ''Throttling in effect (15000 ms). Please wait before calling again''
   \<and> js_get throttled ''fallback'' = JBool True"
proof (intro conjI impI)
  assume "SHOULD_ENGAGE_THROTTLING_MS \<le> t1 - shouldEngageTimeCalled st1
        \<and> t2 - t1 < SHOULD_ENGAGE_THROTTLING_MS"
  then show "shouldEngage t2 res2 instructions2
        (shouldEngage_calls between (snd (shouldEngage t1 res1 instructions1 st1)))
        = (Inr throttled,
           shouldEngage_calls between (snd (shouldEngage t1 res1 instructions1 st1)))"
    by (intro shouldEngage_pair) simp_all
next
  assume "SHOULD_ENGAGE_THROTTLING_MS \<le> t1 - shouldEngageTimeCalled st1
        \<and> t2 - t1 < SHOULD_ENGAGE_THROTTLING_MS"
  then show "shouldEngage t2 res2 instructions2 (snd (shouldEngage t1 res1 instructions1 st1))
        = (Inr throttled, snd (shouldEngage t1 res1 instructions1 st1))"
    using shouldEngage_pair[where between = "[]" and st = st1 and ?t1.0 = t1 and ?t2.0 = t2
        and ?res1.0 = res1 and ?instructions1.0 = instructions1 and ?res2.0 = res2
        and ?instructions2.0 = instructions2]
    by simp
next
  assume "now - shouldEngageTimeCalled st < SHOULD_ENGAGE_THROTTLING_MS"
  then show "shouldEngage now res instructions st = (Inr throttled, st)"
    by (rule shouldEngage_gate)
next
  assume "SHOULD_ENGAGE_THROTTLING_MS \<le> t - shouldEngageTimeCalled st3"
  then show "shouldEngageTimeCalled (snd (shouldEngage t res3 instructions3 st3)) = t"
    by (rule shouldEngage_timer)
qed (simp_all add: throttled_def)

text \<open>
  The statement of C7 on the ready agent: a first call at 100 s whose request is
  rejected, calls at 105 s and 109 s, and a second call at 110 s.
\<close>

theorem shouldEngage_cooldown_witness:
  "SHOULD_ENGAGE_THROTTLING_MS \<le> 100000 - shouldEngageTimeCalled ready_agent
   \<and> (110000::int) - 100000 < SHOULD_ENGAGE_THROTTLING_MS
   \<and> shouldEngage 110000 engage_reply None
        (shouldEngage_calls [(105000, engage_reply, None), (109000, NetworkError, Some ''now?'')]
           (snd (shouldEngage 100000 NetworkError None ready_agent)))
       = (Inr throttled,
          shouldEngage_calls [(105000, engage_reply, None), (109000, NetworkError, Some ''now?'')]
            (snd (shouldEngage 100000 NetworkError None ready_agent)))
   \<and> shouldEngage 110000 engage_reply None (snd (shouldEngage 100000 NetworkError None ready_agent))
       = (Inr throttled, snd (shouldEngage 100000 NetworkError None ready_agent))
   \<and> (110000::int) - shouldEngageTimeCalled after_first_call < SHOULD_ENGAGE_THROTTLING_MS
   \<and> shouldEngage 110000 engage_reply None after_first_call = (Inr throttled, after_first_call)
   \<and> fst (shouldEngage 100000 NetworkError None ready_agent)
       = Inl (Unexpected ''shouldEngage'' Rejected)
   \<and> shouldEngageTimeCalled (snd (shouldEngage 100000 NetworkError None ready_agent)) = 100000
   \<and> requests (shouldEngage_calls
                  [(105000, engage_reply, None), (109000, NetworkError, Some ''now?'')]
                  (snd (shouldEngage 100000 NetworkError None ready_agent)))
       = [VerifyKeyRequest ''KEY'', LimitsRequest, ShouldEngageRequest None []]"
proof -
  note t = shouldEngage_cooldown[where now = 110000 and st = after_first_call
      and res = engage_reply and instructions = None
      and ?t1.0 = 100000 and ?t2.0 = 110000 and ?st1.0 = ready_agent and ?res1.0 = NetworkError
      and ?instructions1.0 = None and ?res2.0 = engage_reply and ?instructions2.0 = None
      and t = 100000 and ?st3.0 = ready_agent and ?res3.0 = NetworkError
      and ?instructions3.0 = None
      and between = "[(105000, engage_reply, None), (109000, NetworkError, Some ''now?'')]"]
  have h1: "(110000::int) - shouldEngageTimeCalled after_first_call < SHOULD_ENGAGE_THROTTLING_MS"
    by (simp add: after_first_call_eq SHOULD_ENGAGE_THROTTLING_MS_def)
  have h2: "SHOULD_ENGAGE_THROTTLING_MS \<le> 100000 - shouldEngageTimeCalled ready_agent"
    by (simp add: ready_agent_eq SHOULD_ENGAGE_THROTTLING_MS_def)
  have h3: "(110000::int) - 100000 < SHOULD_ENGAGE_THROTTLING_MS"
    by (simp add: SHOULD_ENGAGE_THROTTLING_MS_def)
  have e: "fst (shouldEngage 100000 NetworkError None ready_agent)
       = Inl (Unexpected ''shouldEngage'' Rejected)"
    by (simp add: shouldEngage_def shouldEngage_try_def catch_rethrow_def rethrow_def
          ready_agent_eq SHOULD_ENGAGE_THROTTLING_MS_def Let_def)
  have q: "requests (shouldEngage_calls
                  [(105000, engage_reply, None), (109000, NetworkError, Some ''now?'')]
                  (snd (shouldEngage 100000 NetworkError None ready_agent)))
       = [VerifyKeyRequest ''KEY'', LimitsRequest, ShouldEngageRequest None []]"
    by (simp add: shouldEngage_def shouldEngage_try_def catch_rethrow_def rethrow_def
          ready_agent_eq fetch_def getContextString_def SHOULD_ENGAGE_THROTTLING_MS_def Let_def)
  from t h1 h2 h3 e q show ?thesis by blast
qed

section \<open>Sorting gathers by the indexes\<close>

lemma sort_route_success:
  assumes "2 \<le> length array"
    and "status r = 200"
    and "json_body r = Some sortData"
    and "typeof_object sortData" and "sortData \<noteq> JNull"
    and "js_get sortData ''indexes'' = JArr indexes"
    and "list_all is_integer indexes"
    and "is_string (js_get sortData ''reasoning'')"
    and "length indexes = length array"
  shows "fst (sort_route N now (Response r) (JArr array) instructions useContext st) =
           Inr (JObj [(''array'', JArr (map (\<lambda>index. js_index array (integer_of index)) indexes)),
                      (''indexes'', JArr indexes),
                      (''reasoning'', js_get sortData ''reasoning''),
                      (''fallback'', (if is_bool (js_get sortData ''fallback'')
                                      then js_get sortData ''fallback'' else JBool False))])"
  using assms by (simp add: sort_route_def sort_try_def catch_rethrow_def Let_def)

text \<open>
  C8 (sort gathers by indexes). For an input array of at least two elements and a 200
  response whose body is an object with an array \<open>indexes\<close> of integers of the input's
  length and a string \<open>reasoning\<close>, \<open>sort\<close> returns an object whose \<open>array\<close> has the
  input's length and satisfies \<open>array[i] = input[indexes[i]]\<close> at every position
  (\<open>undefined\<close> where the index lies outside the input). For the input
  \<open>['a', 'b', 'c']\<close> and the indexes \<open>[2, 0, 1]\<close> the array is \<open>['c', 'a', 'b']\<close>.
\<close>

theorem sort_gathers_by_indexes:
  assumes "2 \<le> length array"
    and "status r = 200"
    and "json_body r = Some sortData"
    and "typeof_object sortData" and "sortData \<noteq> JNull"
    and "js_get sortData ''indexes'' = JArr indexes"
    and "list_all is_integer indexes"
    and "is_string (js_get sortData ''reasoning'')"
    and "length indexes = length array"
  shows "(\<exists>out gathered.
            fst (sort_route N now (Response r) (JArr array) instructions useContext st) = Inr out
            \<and> js_get out ''array'' = JArr gathered
            \<and> js_get out ''indexes'' = JArr indexes
            \<and> length gathered = length array
            \<and> (\<forall>i<length array. gathered ! i = js_index array (integer_of (indexes ! i))))
         \<and> (\<exists>reasoning fallback.
              fst (sort_route N now
                (Response \<lparr>status = 200, ratelimit = h,
                   json_body = Some (JObj [(''indexes'', JArr [JNum (Fin 2), JNum (Fin 0), JNum (Fin 1)]),
                                           (''reasoning'', JStr ''ok'')]),
                   stream_reads = []\<rparr>)
                (JArr [JStr ''a'', JStr ''b'', JStr ''c'']) instructions useContext st)
              = Inr (JObj [(''array'', JArr [JStr ''c'', JStr ''a'', JStr ''b'']),
                           (''indexes'', JArr [JNum (Fin 2), JNum (Fin 0), JNum (Fin 1)]),
                           (''reasoning'', reasoning), (''fallback'', fallback)]))"
proof
  show "\<exists>out gathered.
            fst (sort_route N now (Response r) (JArr array) instructions useContext st) = Inr out
            \<and> js_get out ''array'' = JArr gathered
            \<and> js_get out ''indexes'' = JArr indexes
            \<and> length gathered = length array
            \<and> (\<forall>i<length array. gathered ! i = js_index array (integer_of (indexes ! i)))"
    using assms(9) by (simp add: sort_route_success[OF assms])
next
  show "\<exists>reasoning fallback.
              fst (sort_route N now
                (Response \<lparr>status = 200, ratelimit = h,
                   json_body = Some (JObj [(''indexes'', JArr [JNum (Fin 2), JNum (Fin 0), JNum (Fin 1)]),
                                           (''reasoning'', JStr ''ok'')]),
                   stream_reads = []\<rparr>)
                (JArr [JStr ''a'', JStr ''b'', JStr ''c'']) instructions useContext st)
              = Inr (JObj [(''array'', JArr [JStr ''c'', JStr ''a'', JStr ''b'']),
                           (''indexes'', JArr [JNum (Fin 2), JNum (Fin 0), JNum (Fin 1)]),
                           (''reasoning'', reasoning), (''fallback'', fallback)])"
    by (simp add: sort_route_def sort_try_def catch_rethrow_def Let_def is_integer_def
          is_string_def is_bool_def js_index_def integer_of_def)
qed

text \<open>The statement of C8 for the input \<open>['a', 'b']\<close> and the indexes \<open>[1, 5]\<close>.\<close>

theorem sort_gathers_by_indexes_witness:
  "\<exists>out gathered.
      fst (sort_route Number_decimal 0
             (plain_response 200
                (JObj [(''indexes'', JArr [JNum (Fin 1), JNum (Fin 5)]), (''reasoning'', JStr ''ok'')]))
             (JArr [JStr ''a'', JStr ''b'']) None True ready_agent) = Inr out
      \<and> js_get out ''array'' = JArr gathered
      \<and> gathered ! 0 = JStr ''b'' \<and> gathered ! 1 = JUndefined"
proof -
  from sort_gathers_by_indexes[where array = "[JStr ''a'', JStr ''b'']"
      and r = "\<lparr>status = 200, ratelimit = None,
                 json_body = Some (JObj [(''indexes'', JArr [JNum (Fin 1), JNum (Fin 5)]),
                                         (''reasoning'', JStr ''ok'')]),
                 stream_reads = []\<rparr>"
      and sortData = "JObj [(''indexes'', JArr [JNum (Fin 1), JNum (Fin 5)]),
                            (''reasoning'', JStr ''ok'')]"
      and indexes = "[JNum (Fin 1), JNum (Fin 5)]" and N = Number_decimal and now = 0
      and instructions = None and useContext = True and st = ready_agent, THEN conjunct1]
  obtain out gathered where
    o: "fst (sort_route Number_decimal 0
             (plain_response 200
                (JObj [(''indexes'', JArr [JNum (Fin 1), JNum (Fin 5)]), (''reasoning'', JStr ''ok'')]))
             (JArr [JStr ''a'', JStr ''b'']) None True ready_agent) = Inr out"
    and a: "js_get out ''array'' = JArr gathered"
    and g: "\<forall>i<2. gathered ! i
              = js_index [JStr ''a'', JStr ''b''] (integer_of ([JNum (Fin 1), JNum (Fin 5)] ! i))"
    by (auto simp: plain_response_def is_integer_def is_string_def)
  from g have "gathered ! 0 = JStr ''b''" and "gathered ! 1 = JUndefined"
    by (simp_all add: js_index_def integer_of_def)
  with o a show ?thesis by blast
qed

section \<open>Replacing a collection\<close>

lemma first_invalid_None: "first_invalid ok xs i = None \<longleftrightarrow> list_all ok xs"
  by (induction xs arbitrary: i) auto

lemma first_invalid_Some:
  "first_invalid ok xs i = Some k \<Longrightarrow> i \<le> k \<and> k - i < length xs \<and> \<not> ok (xs ! (k - i))"
proof (induction xs arbitrary: i)
  case Nil
  then show ?case by simp
next
  case (Cons x xs)
  show ?case
  proof (cases "ok x")
    case True
    with Cons.prems have "first_invalid ok xs (Suc i) = Some k" by simp
    from Cons.IH[OF this] show ?thesis
      by (auto simp: Suc_diff_le nth_Cons')
  next
    case False
    with Cons.prems show ?thesis by simp
  qed
qed

text \<open>\<open>setMessageHistory\<close> is all-or-nothing and stores trimmed copies.\<close>

lemma setMessageHistory_invalid:
  assumes "\<not> list_all valid_message ms"
  shows "\<exists>k<length ms. \<not> valid_message (ms ! k)
           \<and> setMessageHistory (JArr ms) st
               = (Inl (Failed ''setMessageHistory'' (InvalidElement k)), st)"
proof -
  from assms obtain k where k: "first_invalid valid_message ms 0 = Some k"
    using first_invalid_None[of valid_message ms 0] by (cases "first_invalid valid_message ms 0") auto
  from first_invalid_Some[OF k] k show ?thesis
    by (auto simp: setMessageHistory_def)
qed

lemma setMessageHistory_valid:
  assumes "list_all valid_message ms"
  shows "fst (setMessageHistory (JArr ms) st) = Inr ()
         \<and> messageHistory (snd (setMessageHistory (JArr ms) st)) = map copy_message ms"
  using assms first_invalid_None[of valid_message ms 0]
  by (simp add: setMessageHistory_def messageHistory_notify)

text \<open>Whatever \<open>setContext\<close> raises, the agent is as before.\<close>

lemma setContext_error_untouched:
  assumes "fst (setContext now arg st) = Inl e"
  shows "snd (setContext now arg st) = st"
  using assms by (auto simp: setContext_def split: jsval.splits option.splits)

lemma context_notify: "context (onContextChangeExecute st) = context st"
proof -
  have "context (notifyContext cs s) = context s" for cs s
  proof (induction cs arbitrary: s)
    case Nil
    show ?case by simp
  next
    case (Cons c cs)
    show ?case
      by (cases c) (simp_all add: Cons setStorageItem_def split: option.split)
  qed
  then show ?thesis by (simp add: onContextChangeExecute_def)
qed

lemma setContext_success_copies:
  assumes "fst (setContext now (JArr es) st) = Inr u"
  shows "context (snd (setContext now (JArr es) st)) = map (copy_entry now) es"
  using assms by (auto simp: setContext_def context_notify split: option.splits)

lemma example_entries:
  "valid_entry stamped_entry" "has_timestamp stamped_entry"
  "js_get stamped_entry ''timestamp'' \<noteq> JUndefined"
  "valid_entry plain_entry" "\<not> has_timestamp plain_entry"
  "\<not> valid_entry blank_entry"
  by (simp_all add: stamped_entry_def plain_entry_def blank_entry_def valid_entry_def
        has_timestamp_def valid_timestamp_field_def trim_examples MAX_CONTEXT_ENTRY_LENGTH_def)

text \<open>
  C9 (replacing a collection is all-or-nothing). The claim is that \<open>setMessageHistory\<close>
  and \<open>setContext\<close> answer an invalid element with a validation error and leave the
  collection untouched. \<open>setMessageHistory\<close> does (lemma \<open>setMessageHistory_invalid\<close>),
  and \<open>setContext\<close> leaves the context untouched whenever it raises (lemma
  \<open>setContext_error_untouched\<close>). But for the array \<open>[{content: 'a', timestamp: 1},
  {content: ''}]\<close>, whose second element is invalid, \<open>setContext\<close> raises the
  ReferenceError of the undeclared \<open>timestamp\<close> at the first element and never reaches
  the validation error; it raises the same error for the valid array
  \<open>[{content: 'a', timestamp: 1}]\<close>.
\<close>

theorem setContext_reference_error_before_validation:
  "\<not> valid_entry blank_entry
   \<and> setContext now (JArr [stamped_entry, blank_entry]) st = (Inl (ReferenceError ''timestamp''), st)
   \<and> valid_entry stamped_entry
   \<and> setContext now (JArr [stamped_entry]) st = (Inl (ReferenceError ''timestamp''), st)"
  by (simp add: setContext_def example_entries)

lemma valid_defined_timestamp:
  assumes "valid_entry e" and "js_get e ''timestamp'' \<noteq> JUndefined"
  shows "has_timestamp e"
  using assms
  by (auto simp: valid_entry_def has_timestamp_def valid_timestamp_field_def split: jsval.splits)

lemma setContext_check_timestamped:
  assumes "e \<in> set es" and "valid_entry e" and "has_timestamp e"
  shows "\<exists>err. setContext_check es i = Some err
           \<and> (err = ReferenceError ''timestamp''
              \<or> (\<exists>k<length es. \<not> valid_entry (es ! k)
                    \<and> err = Failed ''setContext'' (InvalidElement (i + k))))"
  using assms(1)
proof (induction es arbitrary: i)
  case Nil
  then show ?case by simp
next
  case (Cons x xs)
  show ?case
  proof (cases "valid_entry x")
    case False
    then show ?thesis by auto
  next
    case valid: True
    show ?thesis
    proof (cases "has_timestamp x")
      case True
      with valid show ?thesis by simp
    next
      case False
      with Cons.prems assms(3) have "e \<in> set xs" by auto
      from Cons.IH[OF this, of "Suc i"] obtain err where
        c: "setContext_check xs (Suc i) = Some err"
        and d: "err = ReferenceError ''timestamp''
              \<or> (\<exists>k<length xs. \<not> valid_entry (xs ! k)
                    \<and> err = Failed ''setContext'' (InvalidElement (Suc i + k)))"
        by blast
      from d show ?thesis
      proof
        assume "err = ReferenceError ''timestamp''"
        with c valid False show ?thesis by simp
      next
        assume "\<exists>k<length xs. \<not> valid_entry (xs ! k)
                    \<and> err = Failed ''setContext'' (InvalidElement (Suc i + k))"
        then obtain k where "k < length xs" and "\<not> valid_entry (xs ! k)"
          and "err = Failed ''setContext'' (InvalidElement (Suc i + k))" by blast
        then have "Suc k < length (x # xs) \<and> \<not> valid_entry ((x # xs) ! Suc k)
                    \<and> err = Failed ''setContext'' (InvalidElement (i + Suc k))"
          by simp
        with c valid False show ?thesis by force
      qed
    qed
  qed
qed

lemma setContext_check_valid_prefix:
  assumes "list_all valid_entry pre" and "valid_entry e" and "has_timestamp e"
  shows "setContext_check (pre @ e # post) i = Some (ReferenceError ''timestamp'')"
  using assms(1)
proof (induction pre arbitrary: i)
  case Nil
  with assms(2,3) show ?case by simp
next
  case (Cons x xs)
  then show ?case by simp
qed

text \<open>
  C10, as stated, fails: the claim is that every array with a valid, explicitly
  timestamped entry makes the loop throw a ReferenceError. In \<open>[{content: ''},
  {content: 'a', timestamp: 1}]\<close> the blank first element is checked first and the call
  raises the validation error for index 0.
\<close>

theorem setContext_validation_error_comes_first:
  "valid_entry stamped_entry
   \<and> js_get stamped_entry ''timestamp'' = JNum (Fin 1)
   \<and> setContext 0 (JArr [blank_entry, stamped_entry]) ready_agent
       = (Inl (Failed ''setContext'' (InvalidElement 0)), ready_agent)"
  by (simp add: setContext_def example_entries) (simp add: stamped_entry_def)

text \<open>
  C10 (setContext and explicit timestamps), amended. When the array holds an entry that is
  valid and has a defined \<open>timestamp\<close>, \<open>setContext\<close> raises and the agent, its context
  included, is as before: the error is the ReferenceError of the undeclared \<open>timestamp\<close>
  when every element before that entry is valid, and in general either that ReferenceError
  or the validation error for an invalid element of the array. So no array with such an
  entry is ever committed.
\<close>

theorem setContext_never_commits_timestamped_entry:
  assumes "e \<in> set es" and "valid_entry e" and "js_get e ''timestamp'' \<noteq> JUndefined"
  shows "(\<exists>err. setContext now (JArr es) st = (Inl err, st)
            \<and> (err = ReferenceError ''timestamp''
               \<or> (\<exists>k<length es. \<not> valid_entry (es ! k)
                     \<and> err = Failed ''setContext'' (InvalidElement k))))
         \<and> (es = pre @ e # post \<and> list_all valid_entry pre \<longrightarrow>
              setContext now (JArr es) st = (Inl (ReferenceError ''timestamp''), st))"
proof
  have ts: "has_timestamp e"
    using assms(2,3) by (rule valid_defined_timestamp)
  from setContext_check_timestamped[OF assms(1,2) ts, of 0]
  show "\<exists>err. setContext now (JArr es) st = (Inl err, st)
            \<and> (err = ReferenceError ''timestamp''
               \<or> (\<exists>k<length es. \<not> valid_entry (es ! k)
                     \<and> err = Failed ''setContext'' (InvalidElement k)))"
    by (auto simp: setContext_def)
  show "es = pre @ e # post \<and> list_all valid_entry pre \<longrightarrow>
              setContext now (JArr es) st = (Inl (ReferenceError ''timestamp''), st)"
    using setContext_check_valid_prefix[OF _ assms(2) ts, of pre post 0]
    by (auto simp: setContext_def)
qed

text \<open>The statement of C10 for \<open>[{content: 'hi'}, {content: 'a', timestamp: 1}]\<close>.\<close>

theorem setContext_never_commits_timestamped_entry_witness:
  "stamped_entry \<in> set [plain_entry, stamped_entry]
   \<and> valid_entry stamped_entry
   \<and> js_get stamped_entry ''timestamp'' \<noteq> JUndefined
   \<and> list_all valid_entry [plain_entry]
   \<and> setContext 0 (JArr [plain_entry, stamped_entry]) ready_agent
       = (Inl (ReferenceError ''timestamp''), ready_agent)"
proof -
  have m: "stamped_entry \<in> set [plain_entry, stamped_entry]" by simp
  have p: "list_all valid_entry [plain_entry]" by (simp add: example_entries)
  from setContext_never_commits_timestamped_entry[OF m example_entries(1) example_entries(3),
      where pre = "[plain_entry]" and post = "[]" and now = 0 and st = ready_agent] p
  have "setContext 0 (JArr [plain_entry, stamped_entry]) ready_agent
       = (Inl (ReferenceError ''timestamp''), ready_agent)"
    by simp
  with m p example_entries(1,3) show ?thesis by simp
qed

end
